theory Spec2Isabelle
  imports Main "HOL-Library.Sublist" "HOL-Library.Multiset" "HOL-Library.Word"
begin

section \<open>Data model\<close>

text \<open>
  The moderation bot of \<^verbatim>\<open>main.py\<close> keeps one row per user in the table
  \<^verbatim>\<open>users\<close>; the column \<^verbatim>\<open>history\<close> holds a JSON array of punishment entries.
  An entry is the dictionary that \<^verbatim>\<open>add_punishment\<close> builds. The keys \<^verbatim>\<open>id\<close>,
  \<^verbatim>\<open>date\<close>, \<^verbatim>\<open>type\<close>, ... carry the prefix \<open>e_\<close> here, since \<open>id\<close> is a constant
  of HOL, and the column \<^verbatim>\<open>alias\<close> is the field \<open>user_alias\<close>. Time is counted
  in whole seconds (the entry id is \<^verbatim>\<open>int(now.timestamp())\<close>);
  the formatted date string is represented by the same number.
\<close>

record entry =
  e_id :: int
  e_date :: int
  e_type :: string
  e_reason :: string
  e_duration :: int
  e_issued_by :: string

record user =
  user_id :: int
  join_date :: int
  user_alias :: string
  warns :: int
  bans :: int
  history :: "entry list"

text \<open>The table \<^verbatim>\<open>users\<close> is the list of its rows.\<close>

type_synonym users_table = "user list"

text \<open>The four identifiers read from the environment at start-up.\<close>

record config =
  FRONTEND_CHAT_ID :: int
  ADMIN_GROUP_ID :: int
  BOT_THREAD_ID :: int
  LOGS_THREAD_ID :: int

text \<open>
  The part of a Telegram update that the handlers read: the effective message with its
  chat, topic, sender, text and the file name of an attached document. The identifier
  of the sender comes from Telegram, where it is a 64-bit integer; \<open>from_id\<close> below
  reads it as the Python integer \<^verbatim>\<open>msg.from_user.id\<close>.
\<close>

record message =
  message_id :: int
  chat_id :: int
  message_thread_id :: "int option"
  from_user :: "64 word"
  username :: "string option"
  first_name :: string
  msg_text :: "string option"
  file_name :: "string option"

definition from_id :: "message \<Rightarrow> int" where
  "from_id msg = sint (from_user msg)"

text \<open>
  The texts the bot sends are Russian sentences built from a few values. Each template is
  a constructor that keeps those values; the wording itself plays no role.
\<close>

datatype notice =
    Violation_log int string int string
  | Warn_notice string string "string list" "string list"
  | Mute_notice string
  | Usage string
  | Bad_arguments
  | Bad_user_id
  | Ban_reply int int int
  | Ban_log int int string
  | Warn_reply int int
  | Warn_log int string
  | No_warns_reply
  | Unwarn_reply int
  | Unwarn_log int int
  | Mute_reply int int
  | Mute_log int int string
  | Unmute_reply int
  | Unmute_log int
  | Links_list "string list"
  | Enter_url
  | Confirm_delete string
  | Link_deleted
  | Bad_url
  | Link_added string
  | Help_text "string list" "string list"

text \<open>
  Calls to the Bot API, in the order the handlers make them. \<open>Restrict_chat_member\<close>
  carries chat, user, the permission \<^verbatim>\<open>can_send_messages\<close> and \<^verbatim>\<open>until_date\<close>;
  \<open>Unban_chat_member\<close> carries chat, user and \<^verbatim>\<open>only_if_banned\<close>.
\<close>

datatype api_call =
    Delete_message int int
  | Send_message int "int option" notice
  | Reply_text int notice
  | Edit_text notice
  | Answer_callback
  | Restrict_chat_member int int bool "int option"
  | Ban_chat_member int int
  | Unban_chat_member int int bool

text \<open>
  A coroutine started with \<^verbatim>\<open>asyncio.create_task(schedule_unban(bot, user_id, hours))\<close>
  that is still asleep: the time it wakes up and its two arguments.
\<close>

record task =
  wake_at :: int
  task_user_id :: int
  task_hours :: int

datatype error = ValueError | TypeError | OverflowError

text \<open>
  Everything the handlers read and change: the table \<^verbatim>\<open>users\<close>, the table
  \<^verbatim>\<open>allowed_links\<close>, the two global lists loaded from the database, the answer of
  \<^verbatim>\<open>get_chat_administrators(FRONTEND_CHAT_ID)\<close> (\<open>None\<close> when the call raises), the
  Bot API calls made so far, the sleeping tasks and the clock.
\<close>

record world =
  users :: users_table
  allowed_links :: "string list"
  ALLOWED_LINKS :: "string list"
  ALLOWED_EXTS :: "string list"
  chat_administrators :: "int list option"
  calls :: "api_call list"
  tasks :: "task list"
  now :: int

text \<open>
  The database answers every query and the Bot API accepts every call, so the
  \<^verbatim>\<open>except\<close> branches that only log are not taken. A handler runs from its first
  statement to its last without another handler in between, and reads the clock once.
  What can still raise is kept: the URL parser (ValueError), a document without a file
  name and a user without a row (TypeError), a date or a delay out of range
  (OverflowError). A handler that raises returns the error with the state it has
  reached by then.
\<close>

definition api :: "api_call \<Rightarrow> world \<Rightarrow> world" where
  "api c w = w\<lparr>calls := calls w @ [c]\<rparr>"

section \<open>Working with users\<close>

definition get_user :: "users_table \<Rightarrow> int \<Rightarrow> user option" where
  "get_user db uid = find (\<lambda>row. user_id row = uid) db"

text \<open>The column \<^verbatim>\<open>user_id\<close> is a \<^verbatim>\<open>BIGINT\<close>.\<close>

definition bigint :: "int \<Rightarrow> bool" where
  "bigint i = (- (2 ^ 63) \<le> i \<and> i < 2 ^ 63)"

text \<open>
  \<^verbatim>\<open>INSERT ... ON CONFLICT (user_id) DO NOTHING\<close>. For an identifier that does not
  fit the column the statement fails; \<^verbatim>\<open>create_user\<close> logs the error and goes on
  without a new row.
\<close>

definition create_user :: "int \<Rightarrow> users_table \<Rightarrow> int \<Rightarrow> string \<Rightarrow> users_table" where
  "create_user t db uid a =
     (if \<not> bigint uid then db
      else if \<exists>row \<in> set db. user_id row = uid then db
      else db @ [\<lparr>user_id = uid, join_date = t, user_alias = a, warns = 0, bans = 0,
                  history = []\<rparr>])"

text \<open>\<^verbatim>\<open>UPDATE users SET alias, warns, bans, history WHERE user_id = ...\<close>\<close>

definition update_user_record :: "users_table \<Rightarrow> user \<Rightarrow> users_table" where
  "update_user_record db u =
     map (\<lambda>row. if user_id row = user_id u
                then row\<lparr>user_alias := user_alias u, warns := warns u, bans := bans u,
                         history := history u\<rparr>
                else row) db"

text \<open>
  When \<^verbatim>\<open>get_user\<close> still finds no row after \<^verbatim>\<open>create_user\<close>, the subscript
  \<^verbatim>\<open>user["warns"]\<close>, \<^verbatim>\<open>user["bans"]\<close> or \<^verbatim>\<open>user["history"]\<close> on \<^verbatim>\<open>None\<close> raises
  TypeError.
\<close>

definition add_punishment ::
  "int \<Rightarrow> users_table \<Rightarrow> int \<Rightarrow> string \<Rightarrow> string \<Rightarrow> string \<Rightarrow> int \<Rightarrow> string
     \<Rightarrow> error + (users_table \<times> user)" where
  "add_punishment t db uid a p_type reason duration issued_by =
     (let entry = \<lparr>e_id = t, e_date = t, e_type = p_type, e_reason = reason,
                   e_duration = duration, e_issued_by = issued_by\<rparr>;
          db1 = (case get_user db uid of None \<Rightarrow> create_user t db uid a | Some _ \<Rightarrow> db)
      in case get_user db1 uid of
           None \<Rightarrow> Inl TypeError
         | Some u \<Rightarrow>
             (let u1 = (if p_type = ''warn'' then u\<lparr>warns := warns u + 1\<rparr>
                        else if p_type = ''ban'' then u\<lparr>bans := bans u + 1\<rparr>
                        else u);
                  u2 = u1\<lparr>history := history u1 @ [entry]\<rparr>
              in Inr (update_user_record db1 u2, u2)))"

section \<open>Processing a violation\<close>

definition alias_of :: "message \<Rightarrow> string" where
  "alias_of msg =
     (case username msg of
        None \<Rightarrow> first_name msg
      | Some n \<Rightarrow> if n = [] then first_name msg else CHR ''@'' # n)"

definition process_violation ::
  "config \<Rightarrow> message \<Rightarrow> string \<Rightarrow> string \<Rightarrow> world \<Rightarrow> (error \<times> world) + world" where
  "process_violation cfg msg reason detail w =
     (let a = alias_of msg;
          w1 = api (Delete_message (chat_id msg) (message_id msg)) w;
          shown = (case msg_text msg of None \<Rightarrow> detail | Some s \<Rightarrow> if s = [] then detail else s);
          w2 = api (Send_message (ADMIN_GROUP_ID cfg) (Some (LOGS_THREAD_ID cfg))
                      (Violation_log (from_id msg) a (now w1) shown)) w1;
          record_warns = (case get_user (users w2) (from_id msg) of
                            None \<Rightarrow> 0 | Some r \<Rightarrow> warns r)
      in if record_warns = 0 then
           (let w3 = api (Send_message (chat_id msg) None
                            (Warn_notice a reason (ALLOWED_LINKS w2) (ALLOWED_EXTS w2))) w2
            in case add_punishment (now w3) (users w3) (from_id msg) a ''warn'' reason 0 ''bot'' of
                 Inl e \<Rightarrow> Inl (e, w3)
               | Inr (db, _) \<Rightarrow> Inr (w3\<lparr>users := db\<rparr>))
         else
           (let until = now w2 + 3600;
                w3 = api (Restrict_chat_member (chat_id msg) (from_id msg) False (Some until)) w2
            in case add_punishment (now w3) (users w3) (from_id msg) a ''mute'' reason 60 ''bot'' of
                 Inl e \<Rightarrow> Inl (e, w3)
               | Inr (db, _) \<Rightarrow>
                   Inr (api (Send_message (chat_id msg) None (Mute_notice a))
                          (w3\<lparr>users := db\<rparr>))))"

section \<open>Administrative commands\<close>

definition is_admin_in_frontend :: "int \<Rightarrow> world \<Rightarrow> bool" where
  "is_admin_in_frontend uid w =
     (case chat_administrators w of None \<Rightarrow> False | Some admins \<Rightarrow> uid \<in> set admins)"

definition is_valid_admin_command :: "config \<Rightarrow> message \<Rightarrow> world \<Rightarrow> bool" where
  "is_valid_admin_command cfg msg w =
     (if chat_id msg \<noteq> ADMIN_GROUP_ID cfg \<or> message_thread_id msg \<noteq> Some (BOT_THREAD_ID cfg)
      then False
      else is_admin_in_frontend (from_id msg) w)"

definition reply_text :: "message \<Rightarrow> notice \<Rightarrow> world \<Rightarrow> world" where
  "reply_text msg n w = api (Reply_text (message_id msg) n) w"

definition delete_command_message :: "message \<Rightarrow> world \<Rightarrow> world" where
  "delete_command_message msg w = api (Delete_message (chat_id msg) (message_id msg)) w"

text \<open>
  Python's \<^verbatim>\<open>int(s)\<close> on a command argument: an optional sign, then decimal digits,
  where single underscores may stand between digits. Arguments are whitespace-separated
  tokens, so the stripping of blanks is not needed. \<open>None\<close> is the ValueError.
\<close>

definition is_digit :: "char \<Rightarrow> bool" where
  "is_digit c = (48 \<le> (of_char c :: nat) \<and> (of_char c :: nat) \<le> 57)"

definition digit_val :: "char \<Rightarrow> nat" where
  "digit_val c = of_char c - 48"

fun digits_acc :: "bool \<Rightarrow> nat \<Rightarrow> string \<Rightarrow> nat option" where
  "digits_acc prev acc [] = (if prev then Some acc else None)"
| "digits_acc prev acc (c # cs) =
     (if is_digit c then digits_acc True (acc * 10 + digit_val c) cs
      else if c = CHR ''_'' \<and> prev then digits_acc False acc cs
      else None)"

definition py_int :: "string \<Rightarrow> int option" where
  "py_int s =
     (case s of
        [] \<Rightarrow> None
      | c # cs \<Rightarrow>
          if c = CHR ''-'' then map_option (\<lambda>n. - int n) (digits_acc False 0 cs)
          else if c = CHR ''+'' then map_option int (digits_acc False 0 cs)
          else map_option int (digits_acc False 0 s))"

text \<open>\<^verbatim>\<open>str(n)\<close> for an integer.\<close>

function str_nat :: "nat \<Rightarrow> string" where
  "str_nat n = (if n < 10 then [char_of (48 + n)] else str_nat (n div 10) @ [char_of (48 + n mod 10)])"
  by pat_completeness auto
termination
  by (relation "measure (\<lambda>n. n)") auto

definition str_int :: "int \<Rightarrow> string" where
  "str_int i = (if i < 0 then CHR ''-'' # str_nat (nat (- i)) else str_nat (nat i))"

text \<open>\<^verbatim>\<open>" ".join(xs)\<close>\<close>

fun join_space :: "string list \<Rightarrow> string" where
  "join_space [] = []"
| "join_space [x] = x"
| "join_space (x # y # ys) = x @ CHR '' '' # join_space (y # ys)"

text \<open>
  \<^verbatim>\<open>asyncio.create_task(schedule_unban(bot, user_id, hours))\<close>: the new coroutine sleeps
  \<^verbatim>\<open>hours * 3600\<close> seconds. \<^verbatim>\<open>asyncio.sleep\<close> with a delay that is not positive
  returns at once. A positive delay is added to the loop's clock, a float; an integer
  from \<open>2^1024 - 2^970\<close> on cannot be converted, the addition raises OverflowError
  outside the \<^verbatim>\<open>try\<close> of \<^verbatim>\<open>schedule_unban\<close> and the task ends without any call.
\<close>

definition float_max_int :: int where
  "float_max_int = 2 ^ 1024 - 2 ^ 970"

definition create_task_schedule_unban :: "int \<Rightarrow> int \<Rightarrow> world \<Rightarrow> world" where
  "create_task_schedule_unban uid hours w =
     (if float_max_int \<le> hours * 3600 then w
      else w\<lparr>tasks := tasks w @
             [\<lparr>wake_at = now w + (if hours * 3600 \<le> 0 then 0 else hours * 3600),
               task_user_id = uid, task_hours = hours\<rparr>]\<rparr>)"

text \<open>What \<^verbatim>\<open>schedule_unban\<close> does once its sleep is over.\<close>

definition schedule_unban :: "config \<Rightarrow> task \<Rightarrow> api_call" where
  "schedule_unban cfg k = Unban_chat_member (FRONTEND_CHAT_ID cfg) (task_user_id k) True"

text \<open>
  The event loop up to time \<open>t\<close>: every task whose sleep is over by then resumes, in the
  order of the wake-up times, makes its call and ends; the others stay asleep.
\<close>

definition run_until :: "config \<Rightarrow> int \<Rightarrow> world \<Rightarrow> world" where
  "run_until cfg t w =
     w\<lparr>calls := calls w @ map (schedule_unban cfg)
                            (sort_key wake_at (filter (\<lambda>k. wake_at k \<le> t) (tasks w))),
       tasks := filter (\<lambda>k. \<not> wake_at k \<le> t) (tasks w),
       now := max (now w) t\<rparr>"

text \<open>The event loop over a series of moments.\<close>

definition run_clock :: "config \<Rightarrow> int list \<Rightarrow> world \<Rightarrow> world" where
  "run_clock cfg ts w = foldl (\<lambda>w t. run_until cfg t w) w ts"

text \<open>\<^verbatim>\<open>/ban user_id reason hours\<close>\<close>

definition ban_command ::
  "config \<Rightarrow> message \<Rightarrow> string list \<Rightarrow> world \<Rightarrow> (error \<times> world) + world" where
  "ban_command cfg msg args w =
     (if \<not> is_valid_admin_command cfg msg w then Inr w
      else if length args < 3 then
        Inr (delete_command_message msg (reply_text msg (Usage ''/ban'') w))
      else
        case py_int (hd args) of
          None \<Rightarrow> Inr (delete_command_message msg (reply_text msg Bad_arguments w))
        | Some target_id \<Rightarrow>
           (case py_int (last args) of
              None \<Rightarrow> Inr (delete_command_message msg (reply_text msg Bad_arguments w))
            | Some duration \<Rightarrow>
               (let reason = join_space (butlast (tl args));
                    w1 = api (Ban_chat_member (FRONTEND_CHAT_ID cfg) target_id) w
                in case add_punishment (now w1) (users w1) target_id (str_int target_id)
                          ''ban'' reason duration (first_name msg) of
                     Inl e \<Rightarrow> Inl (e, w1)
                   | Inr (db, record) \<Rightarrow>
                      (let w2 = reply_text msg (Ban_reply target_id duration (bans record))
                                  (w1\<lparr>users := db\<rparr>);
                           w3 = api (Send_message (ADMIN_GROUP_ID cfg) (Some (LOGS_THREAD_ID cfg))
                                       (Ban_log target_id duration reason)) w2;
                           w4 = create_task_schedule_unban target_id duration w3
                       in Inr (delete_command_message msg w4)))))"

text \<open>\<^verbatim>\<open>/warn user_id reason days\<close>\<close>

definition warn_command ::
  "config \<Rightarrow> message \<Rightarrow> string list \<Rightarrow> world \<Rightarrow> (error \<times> world) + world" where
  "warn_command cfg msg args w =
     (if \<not> is_valid_admin_command cfg msg w then Inr w
      else if length args < 3 then
        Inr (delete_command_message msg (reply_text msg (Usage ''/warn'') w))
      else
        case py_int (hd args) of
          None \<Rightarrow> Inr (delete_command_message msg (reply_text msg Bad_arguments w))
        | Some target_id \<Rightarrow>
           (case py_int (last args) of
              None \<Rightarrow> Inr (delete_command_message msg (reply_text msg Bad_arguments w))
            | Some duration \<Rightarrow>
               (let reason = join_space (butlast (tl args))
                in case add_punishment (now w) (users w) target_id (str_int target_id)
                          ''warn'' reason duration (first_name msg) of
                     Inl e \<Rightarrow> Inl (e, w)
                   | Inr (db, record) \<Rightarrow>
                      (let w1 = reply_text msg (Warn_reply target_id (warns record))
                                  (w\<lparr>users := db\<rparr>);
                           w2 = api (Send_message (ADMIN_GROUP_ID cfg) (Some (LOGS_THREAD_ID cfg))
                                       (Warn_log target_id reason)) w1
                       in Inr (delete_command_message msg w2)))))"

text \<open>
  \<^verbatim>\<open>/mute user_id reason minutes\<close>. \<^verbatim>\<open>timedelta(minutes=duration)\<close> raises
  OverflowError beyond 999999999 days, and so does the sum with \<^verbatim>\<open>datetime.now()\<close>
  outside the years 1 to 9999.
\<close>

definition timedelta_ok :: "int \<Rightarrow> bool" where
  "timedelta_ok seconds = (- 86399999913600 \<le> seconds \<and> seconds \<le> 86399999999999)"

definition datetime_ok :: "int \<Rightarrow> bool" where
  "datetime_ok t = (- 62135596800 \<le> t \<and> t \<le> 253402300799)"

definition mute_command ::
  "config \<Rightarrow> message \<Rightarrow> string list \<Rightarrow> world \<Rightarrow> (error \<times> world) + world" where
  "mute_command cfg msg args w =
     (if \<not> is_valid_admin_command cfg msg w then Inr w
      else if length args < 3 then
        Inr (delete_command_message msg (reply_text msg (Usage ''/mute'') w))
      else
        case py_int (hd args) of
          None \<Rightarrow> Inr (delete_command_message msg (reply_text msg Bad_arguments w))
        | Some target_id \<Rightarrow>
           (case py_int (last args) of
              None \<Rightarrow> Inr (delete_command_message msg (reply_text msg Bad_arguments w))
            | Some duration \<Rightarrow>
               (let reason = join_space (butlast (tl args));
                    until = now w + duration * 60
                in if \<not> timedelta_ok (duration * 60) \<or> \<not> datetime_ok until
                   then Inl (OverflowError, w)
                   else
                     (let w1 = api (Restrict_chat_member (FRONTEND_CHAT_ID cfg) target_id False
                                      (Some until)) w
                      in case add_punishment (now w1) (users w1) target_id (str_int target_id)
                                ''mute'' reason duration (first_name msg) of
                           Inl e \<Rightarrow> Inl (e, w1)
                         | Inr (db, record) \<Rightarrow>
                            (let w2 = reply_text msg (Mute_reply target_id duration)
                                        (w1\<lparr>users := db\<rparr>);
                                 w3 = api (Send_message (ADMIN_GROUP_ID cfg)
                                             (Some (LOGS_THREAD_ID cfg))
                                             (Mute_log target_id duration reason)) w2
                             in Inr (delete_command_message msg w3))))))"

text \<open>
  \<^verbatim>\<open>/unwarn user_id\<close>. The loop \<^verbatim>\<open>for i in range(len(history) - 1, -1, -1)\<close> pops the
  first entry of type warn it meets and stops; \<open>pop_warn_loop n h\<close> is the loop with \<open>n\<close>
  indices still to visit.
\<close>

fun pop_warn_loop :: "nat \<Rightarrow> entry list \<Rightarrow> entry list" where
  "pop_warn_loop 0 h = h"
| "pop_warn_loop (Suc i) h =
     (if e_type (h ! i) = ''warn'' then take i h @ drop (Suc i) h else pop_warn_loop i h)"

definition unwarn_command :: "config \<Rightarrow> message \<Rightarrow> string list \<Rightarrow> world \<Rightarrow> world" where
  "unwarn_command cfg msg args w =
     (if \<not> is_valid_admin_command cfg msg w then w
      else if args = [] then delete_command_message msg (reply_text msg (Usage ''/unwarn'') w)
      else
        case py_int (hd args) of
          None \<Rightarrow> delete_command_message msg (reply_text msg Bad_user_id w)
        | Some target_id \<Rightarrow>
           (case get_user (users w) target_id of
              None \<Rightarrow> delete_command_message msg (reply_text msg No_warns_reply w)
            | Some record \<Rightarrow>
                if warns record = 0 then
                  delete_command_message msg (reply_text msg No_warns_reply w)
                else
                  (let r1 = record\<lparr>warns := warns record - 1\<rparr>;
                       r2 = r1\<lparr>history := pop_warn_loop (length (history r1)) (history r1)\<rparr>;
                       w1 = w\<lparr>users := update_user_record (users w) r2\<rparr>;
                       w2 = reply_text msg (Unwarn_reply (warns r2)) w1;
                       w3 = api (Send_message (ADMIN_GROUP_ID cfg) (Some (LOGS_THREAD_ID cfg))
                                   (Unwarn_log target_id (warns r2))) w2
                   in delete_command_message msg w3)))"

text \<open>\<^verbatim>\<open>/unmute user_id\<close>\<close>

definition unmute_command :: "config \<Rightarrow> message \<Rightarrow> string list \<Rightarrow> world \<Rightarrow> world" where
  "unmute_command cfg msg args w =
     (if \<not> is_valid_admin_command cfg msg w then w
      else if args = [] then delete_command_message msg (reply_text msg (Usage ''/unmute'') w)
      else
        case py_int (hd args) of
          None \<Rightarrow> delete_command_message msg (reply_text msg Bad_user_id w)
        | Some target_id \<Rightarrow>
           (let w1 = api (Restrict_chat_member (FRONTEND_CHAT_ID cfg) target_id True None) w;
                w2 = reply_text msg (Unmute_reply target_id) w1;
                w3 = api (Send_message (ADMIN_GROUP_ID cfg) (Some (LOGS_THREAD_ID cfg))
                            (Unmute_log target_id)) w2
            in delete_command_message msg w3))"

section \<open>Link and attachment checks\<close>

text \<open>
  Message texts are strings over the code points below 256. \<open>is_space\<close> is the class
  \<^verbatim>\<open>\s\<close> of Python's \<^verbatim>\<open>re\<close> on such text, \<open>py_lower\<close> is \<^verbatim>\<open>str.lower\<close> on one
  character.
\<close>

definition is_space :: "char \<Rightarrow> bool" where
  "is_space c =
     (let n = (of_char c :: nat)
      in (9 \<le> n \<and> n \<le> 13) \<or> (28 \<le> n \<and> n \<le> 32) \<or> n = 133 \<or> n = 160)"

definition py_lower :: "char \<Rightarrow> char" where
  "py_lower c =
     (let n = (of_char c :: nat)
      in if (65 \<le> n \<and> n \<le> 90) \<or> (192 \<le> n \<and> n \<le> 222 \<and> n \<noteq> 215)
         then char_of (n + 32) else c)"

text \<open>
  \<^verbatim>\<open>re.findall(r'https?://\S+', text)\<close>. \<open>match_url s\<close> is the match of the pattern
  at the start of \<open>s\<close>: the scheme, \<^verbatim>\<open>://\<close> and the longest run of at least one
  character that is not white space. The search goes on behind a match, and one
  character further where there is none.
\<close>

definition match_url :: "string \<Rightarrow> string option" where
  "match_url s =
     (if prefix ''https://'' s \<and> drop 8 s \<noteq> [] \<and> \<not> is_space (hd (drop 8 s))
      then Some (''https://'' @ takeWhile (\<lambda>c. \<not> is_space c) (drop 8 s))
      else if prefix ''http://'' s \<and> drop 7 s \<noteq> [] \<and> \<not> is_space (hd (drop 7 s))
      then Some (''http://'' @ takeWhile (\<lambda>c. \<not> is_space c) (drop 7 s))
      else None)"

fun findall_urls :: "string \<Rightarrow> string list" where
  "findall_urls [] = []"
| "findall_urls (c # cs) =
     (case match_url (c # cs) of
        None \<Rightarrow> findall_urls cs
      | Some u \<Rightarrow> u # findall_urls (drop (length u - 1) cs))"

text \<open>
  \<^verbatim>\<open>urlparse(u).hostname\<close> of the standard library. \<open>urlsplit_netloc\<close> is the network
  location: what follows \<^verbatim>\<open>//\<close> behind the scheme, up to the first of \<^verbatim>\<open>/ ? #\<close>.
  A network location with only one of the two square brackets raises ValueError. From
  Python 3.11.4 on the text between the brackets must also be an IP literal; which
  strings the interpreter accepts there is the parameter \<open>bracketed_ok\<close>. The host is
  what follows the last \<^verbatim>\<open>@\<close>, between the brackets if there are any and up to the
  first colon otherwise; it is put in lower case up to a \<^verbatim>\<open>%\<close>. An empty host is
  \<^verbatim>\<open>None\<close>.
\<close>

definition is_ascii_alpha :: "char \<Rightarrow> bool" where
  "is_ascii_alpha c =
     (let n = (of_char c :: nat) in (65 \<le> n \<and> n \<le> 90) \<or> (97 \<le> n \<and> n \<le> 122))"

definition is_scheme_char :: "char \<Rightarrow> bool" where
  "is_scheme_char c = (is_ascii_alpha c \<or> is_digit c \<or> c \<in> set ''+-.'')"

definition urlsplit_netloc :: "string \<Rightarrow> string" where
  "urlsplit_netloc url =
     (let i = length (takeWhile (\<lambda>c. c \<noteq> CHR '':'') url);
          rest = (if CHR '':'' \<in> set url \<and> 0 < i \<and> is_ascii_alpha (hd url) \<and>
                     list_all is_scheme_char (take i url)
                  then drop (Suc i) url else url)
      in if prefix ''//'' rest then takeWhile (\<lambda>c. c \<notin> set ''/?#'') (drop 2 rest) else [])"

definition urlparse_hostname :: "(string \<Rightarrow> bool) \<Rightarrow> string \<Rightarrow> error + string option" where
  "urlparse_hostname bracketed_ok url =
     (let netloc = urlsplit_netloc url
      in if (CHR ''['' \<in> set netloc \<and> CHR '']'' \<notin> set netloc) \<or>
            (CHR '']'' \<in> set netloc \<and> CHR ''['' \<notin> set netloc)
         then Inl ValueError
         else if CHR ''['' \<in> set netloc \<and>
                 \<not> bracketed_ok (takeWhile (\<lambda>c. c \<noteq> CHR '']'')
                                    (tl (dropWhile (\<lambda>c. c \<noteq> CHR ''['') netloc)))
         then Inl ValueError
         else
           (let hostinfo = rev (takeWhile (\<lambda>c. c \<noteq> CHR ''@'') (rev netloc));
                hostname =
                  (if CHR ''['' \<in> set hostinfo
                   then takeWhile (\<lambda>c. c \<noteq> CHR '']'')
                          (tl (dropWhile (\<lambda>c. c \<noteq> CHR ''['') hostinfo))
                   else takeWhile (\<lambda>c. c \<noteq> CHR '':'') hostinfo)
            in if hostname = [] then Inr None
               else Inr (Some (map py_lower (takeWhile (\<lambda>c. c \<noteq> CHR ''%'') hostname) @
                               dropWhile (\<lambda>c. c \<noteq> CHR ''%'') hostname))))"

text \<open>\<^verbatim>\<open>s.replace(old, new)\<close>: every occurrence, found from left to right.\<close>

function str_replace :: "string \<Rightarrow> string \<Rightarrow> string \<Rightarrow> string" where
  "str_replace old new [] = (if old = [] then new else [])"
| "str_replace old new (c # cs) =
     (if old = [] then new @ c # str_replace old new cs
      else if prefix old (c # cs) then new @ str_replace old new (drop (length old) (c # cs))
      else c # str_replace old new cs)"
  by pat_completeness auto
termination
  by (relation "measure (\<lambda>(old, new, s). length s)") auto

fun extract_domains_loop :: "(string \<Rightarrow> bool) \<Rightarrow> string list \<Rightarrow> error + string list" where
  "extract_domains_loop bracketed_ok [] = Inr []"
| "extract_domains_loop bracketed_ok (u # us) =
     (case urlparse_hostname bracketed_ok u of
        Inl e \<Rightarrow> Inl e
      | Inr h \<Rightarrow>
          (case extract_domains_loop bracketed_ok us of
             Inl e \<Rightarrow> Inl e
           | Inr domains \<Rightarrow>
               Inr (str_replace ''www.'' [] (case h of None \<Rightarrow> [] | Some host \<Rightarrow> host)
                      # domains)))"

definition extract_domains :: "(string \<Rightarrow> bool) \<Rightarrow> string \<Rightarrow> error + string list" where
  "extract_domains bracketed_ok s = extract_domains_loop bracketed_ok (findall_urls s)"

text \<open>The two reasons are Russian sentences in the source; they are transliterated here.\<close>

definition link_reason :: string where
  "link_reason = ''Eta ssylka zapreshchena.''"

definition file_reason :: string where
  "file_reason = ''Etot tip faila zapreshchyon.''"

fun handle_message_loop ::
  "config \<Rightarrow> message \<Rightarrow> string \<Rightarrow> string list \<Rightarrow> world \<Rightarrow> (error \<times> world) + world" where
  "handle_message_loop cfg msg s [] w = Inr w"
| "handle_message_loop cfg msg s (d # doms) w =
     (if d \<noteq> [] \<and> d \<notin> set (ALLOWED_LINKS w)
      then process_violation cfg msg link_reason s w
      else handle_message_loop cfg msg s doms w)"

definition handle_message ::
  "(string \<Rightarrow> bool) \<Rightarrow> config \<Rightarrow> message \<Rightarrow> world \<Rightarrow> (error \<times> world) + world" where
  "handle_message bracketed_ok cfg msg w =
     (let s = (case msg_text msg of None \<Rightarrow> [] | Some x \<Rightarrow> x)
      in case extract_domains bracketed_ok s of
           Inl e \<Rightarrow> Inl (e, w)
         | Inr doms \<Rightarrow> handle_message_loop cfg msg s doms w)"

text \<open>
  \<^verbatim>\<open>os.path.splitext\<close> on a POSIX system: the extension starts at the last dot of the
  last path component, and the leading dots of that component do not count.
\<close>

definition splitext :: "string \<Rightarrow> string \<times> string" where
  "splitext p =
     (let base = rev (takeWhile (\<lambda>c. c \<noteq> CHR ''/'') (rev p));
          name = dropWhile (\<lambda>c. c = CHR ''.'') base
      in if CHR ''.'' \<in> set name
         then (let ext = CHR ''.'' # rev (takeWhile (\<lambda>c. c \<noteq> CHR ''.'') (rev name))
               in (take (length p - length ext) p, ext))
         else (p, []))"

text \<open>\<^verbatim>\<open>os.path.splitext(doc.file_name)[1].lstrip(".").lower()\<close>\<close>

definition document_ext :: "string \<Rightarrow> string" where
  "document_ext name = map py_lower (dropWhile (\<lambda>c. c = CHR ''.'') (snd (splitext name)))"

definition handle_document ::
  "config \<Rightarrow> message \<Rightarrow> world \<Rightarrow> (error \<times> world) + world" where
  "handle_document cfg msg w =
     (case file_name msg of
        None \<Rightarrow> Inl (TypeError, w)
      | Some name \<Rightarrow>
          if document_ext name \<notin> set (ALLOWED_EXTS w)
          then process_violation cfg msg file_reason name w
          else Inr w)"

section \<open>The list of allowed links\<close>

definition links_command :: "config \<Rightarrow> message \<Rightarrow> world \<Rightarrow> world" where
  "links_command cfg msg w =
     (if chat_id msg \<noteq> ADMIN_GROUP_ID cfg \<or> message_thread_id msg \<noteq> Some (BOT_THREAD_ID cfg)
      then w
      else reply_text msg (Links_list (ALLOWED_LINKS w)) w)"

text \<open>
  A callback query: who pressed the button, the data of the button and the message the
  keyboard hangs on. The handler is registered outside the conversation, so the state it
  returns is dropped; only its effects are kept here.
\<close>

record callback_query =
  cq_from_user :: "64 word"
  cq_data :: string
  cq_message :: message

definition links_callback :: "config \<Rightarrow> callback_query \<Rightarrow> world \<Rightarrow> world" where
  "links_callback cfg q w =
     (let w1 = api Answer_callback w;
          d = cq_data q
      in if d = ''add_link'' then reply_text (cq_message q) Enter_url w1
         else if prefix ''del|'' d then api (Edit_text (Confirm_delete (drop 4 d))) w1
         else if prefix ''confirm|'' d then
           (let url = drop 8 d;
                rows = filter (\<lambda>u. u \<noteq> url) (allowed_links w1)
            in api (Edit_text Link_deleted) (w1\<lparr>allowed_links := rows, ALLOWED_LINKS := rows\<rparr>))
         else if d = ''back'' then links_command cfg (cq_message q) w1
         else w1)"

section \<open>Commands and updates\<close>

text \<open>\<^verbatim>\<open>/help\<close>\<close>

definition help_command :: "message \<Rightarrow> world \<Rightarrow> world" where
  "help_command msg w = reply_text msg (Help_text (ALLOWED_LINKS w) (ALLOWED_EXTS w)) w"

text \<open>
  The command handlers that the start-up code registers, each under its command word.
  A command word without an entry reaches no handler: such a message is not handled as
  a text either, since the text handler excludes commands.
\<close>

datatype command = Ban | Warn | Unwarn | Mute | Unmute | Help | Links

definition command_handlers :: "(string \<times> command) list" where
  "command_handlers =
     [(''ban'', Ban), (''warn'', Warn), (''unwarn'', Unwarn), (''mute'', Mute),
      (''unmute'', Unmute), (''help'', Help), (''links'', Links)]"

fun run_handler ::
  "config \<Rightarrow> command \<Rightarrow> message \<Rightarrow> string list \<Rightarrow> world \<Rightarrow> (error \<times> world) + world" where
  "run_handler cfg Ban msg args w = ban_command cfg msg args w"
| "run_handler cfg Warn msg args w = warn_command cfg msg args w"
| "run_handler cfg Unwarn msg args w = Inr (unwarn_command cfg msg args w)"
| "run_handler cfg Mute msg args w = mute_command cfg msg args w"
| "run_handler cfg Unmute msg args w = Inr (unmute_command cfg msg args w)"
| "run_handler cfg Help msg args w = Inr (help_command msg w)"
| "run_handler cfg Links msg args w = Inr (links_command cfg msg w)"

definition handle_command ::
  "config \<Rightarrow> string \<Rightarrow> message \<Rightarrow> string list \<Rightarrow> world \<Rightarrow> (error \<times> world) + world" where
  "handle_command cfg word msg args w =
     (case map_of command_handlers word of
        None \<Rightarrow> Inr w
      | Some c \<Rightarrow> run_handler cfg c msg args w)"

text \<open>
  The updates the application hands to its handlers, and the passing of time.
  \<open>Punishment\<close> is a call of \<^verbatim>\<open>add_punishment\<close> with any arguments. After a handler
  that raises, the application goes on with the state reached by then.
\<close>

datatype event =
    Text_message message
  | Document_message message
  | Command string message "string list"
  | Callback callback_query
  | Punishment int string string string int string
  | Clock int

definition after :: "(error \<times> world) + world \<Rightarrow> world" where
  "after r = (case r of Inl (e, w) \<Rightarrow> w | Inr w \<Rightarrow> w)"

fun dispatch :: "(string \<Rightarrow> bool) \<Rightarrow> config \<Rightarrow> event \<Rightarrow> world \<Rightarrow> world" where
  "dispatch ok cfg (Text_message msg) w = after (handle_message ok cfg msg w)"
| "dispatch ok cfg (Document_message msg) w = after (handle_document cfg msg w)"
| "dispatch ok cfg (Command word msg args) w = after (handle_command cfg word msg args w)"
| "dispatch ok cfg (Callback q) w = links_callback cfg q w"
| "dispatch ok cfg (Punishment uid a p_type reason duration issued_by) w =
     (case add_punishment (now w) (users w) uid a p_type reason duration issued_by of
        Inl _ \<Rightarrow> w
      | Inr (db, _) \<Rightarrow> w\<lparr>users := db\<rparr>)"
| "dispatch ok cfg (Clock t) w = run_until cfg t w"

fun run :: "(string \<Rightarrow> bool) \<Rightarrow> config \<Rightarrow> event list \<Rightarrow> world \<Rightarrow> world" where
  "run ok cfg [] w = w"
| "run ok cfg (ev # evs) w = run ok cfg evs (dispatch ok cfg ev w)"

section \<open>Notions used in the properties\<close>

text \<open>What the table says about one user; a user without a row has no history.\<close>

definition history_of :: "users_table \<Rightarrow> int \<Rightarrow> entry list" where
  "history_of db uid = (case get_user db uid of None \<Rightarrow> [] | Some r \<Rightarrow> history r)"

definition warns_of :: "users_table \<Rightarrow> int \<Rightarrow> int" where
  "warns_of db uid = (case get_user db uid of None \<Rightarrow> 0 | Some r \<Rightarrow> warns r)"

definition bans_of :: "users_table \<Rightarrow> int \<Rightarrow> int" where
  "bans_of db uid = (case get_user db uid of None \<Rightarrow> 0 | Some r \<Rightarrow> bans r)"

text \<open>The entry that \<^verbatim>\<open>add_punishment\<close> builds at time \<open>t\<close>.\<close>

definition new_entry :: "int \<Rightarrow> string \<Rightarrow> string \<Rightarrow> int \<Rightarrow> string \<Rightarrow> entry" where
  "new_entry t p_type reason duration issued_by =
     \<lparr>e_id = t, e_date = t, e_type = p_type, e_reason = reason, e_duration = duration,
      e_issued_by = issued_by\<rparr>"

definition is_warn :: "entry \<Rightarrow> bool" where
  "is_warn e = (e_type e = ''warn'')"

text \<open>The counter of warnings of a row agrees with its history.\<close>

definition warns_consistent :: "user \<Rightarrow> bool" where
  "warns_consistent r = (warns r = int (length (filter is_warn (history r))))"

definition ledger_ok :: "users_table \<Rightarrow> bool" where
  "ledger_ok db = list_all warns_consistent db"


text \<open>
  The hostname of the specification: a leading label \<^verbatim>\<open>www.\<close> is stripped, and nothing
  else of the hostname.
\<close>

definition strip_leading_www :: "string \<Rightarrow> string" where
  "strip_leading_www h = (if prefix ''www.'' h then drop 4 h else h)"

text \<open>The expression \<^verbatim>\<open>urlparse(u).hostname or ""\<close>.\<close>

definition hostname_or_empty :: "(string \<Rightarrow> bool) \<Rightarrow> string \<Rightarrow> string" where
  "hostname_or_empty ok u =
     (case urlparse_hostname ok u of Inl _ \<Rightarrow> [] | Inr None \<Rightarrow> [] | Inr (Some h) \<Rightarrow> h)"

text \<open>An interpreter older than Python 3.11.4 accepts any text between the brackets.\<close>

definition accept_bracketed :: "string \<Rightarrow> bool" where
  "accept_bracketed h = True"


text \<open>A configuration, a state and a message to run the handlers on.\<close>

definition demo_config :: config where
  "demo_config = \<lparr>FRONTEND_CHAT_ID = -1001, ADMIN_GROUP_ID = -1002, BOT_THREAD_ID = 7,
                    LOGS_THREAD_ID = 8\<rparr>"

definition demo_world :: world where
  "demo_world = \<lparr>users = [], allowed_links = [''good.example''],
                   ALLOWED_LINKS = [''good.example''], ALLOWED_EXTS = [''pdf'', ''png''],
                   chat_administrators = Some [1], calls = [], tasks = [], now = 1000\<rparr>"

definition demo_message :: message where
  "demo_message = \<lparr>message_id = 5, chat_id = -1001, message_thread_id = None, from_user = 42,
                     username = Some ''mallory'', first_name = ''Mallory'',
                     msg_text = Some ''see http://evil.example/x'', file_name = None\<rparr>"

definition admin_message :: message where
  "admin_message = \<lparr>message_id = 6, chat_id = -1002, message_thread_id = Some 7, from_user = 1,
                      username = None, first_name = ''Alice'', msg_text = None,
                      file_name = None\<rparr>"

definition outsider_message :: message where
  "outsider_message = \<lparr>message_id = 9, chat_id = -1002, message_thread_id = Some 7,
                         from_user = 666, username = Some ''eve'', first_name = ''Eve'',
                         msg_text = Some ''/links'', file_name = None\<rparr>"

text \<open>The bot's own message with the keyboard, in the command topic.\<close>

definition keyboard_message :: message where
  "keyboard_message = \<lparr>message_id = 10, chat_id = -1002, message_thread_id = Some 7,
                         from_user = 999, username = Some ''ftgbot'', first_name = ''Bot'',
                         msg_text = None, file_name = None\<rparr>"

definition warned_world :: world where
  "warned_world = demo_world\<lparr>users :=
      [\<lparr>user_id = 42, join_date = 900, user_alias = ''@mallory'', warns = 1, bans = 0,
        history = [new_entry 900 ''warn'' ''link'' 0 ''bot'']\<rparr>]\<rparr>"

definition disguised_message :: message where
  "disguised_message = demo_message\<lparr>msg_text := Some ''look http://gowww.od.example/x''\<rparr>"

definition broken_link_message :: message where
  "broken_link_message = demo_message\<lparr>msg_text := Some ''http://evil.example http://[x''\<rparr>"




definition demo_events :: "event list" where
  "demo_events =
     [Text_message demo_message,
      Punishment 42 ''42'' ''warn'' ''spam'' 3 ''Alice'',
      Document_message (demo_message\<lparr>msg_text := None, file_name := Some ''payload.exe''\<rparr>),
      Command ''unwarn'' admin_message [''42'']]"

text \<open>A table with two rows; user 42 has been warned, muted, warned again and banned.\<close>

definition ledger_world :: world where
  "ledger_world = demo_world
     \<lparr>users := [\<lparr>user_id = 7, join_date = 800, user_alias = ''@bob'', warns = 0, bans = 0,
                  history = [new_entry 905 ''mute'' ''flood'' 30 ''Alice'']\<rparr>,
                 \<lparr>user_id = 42, join_date = 900, user_alias = ''@mallory'', warns = 2, bans = 1,
                  history = [new_entry 900 ''warn'' ''link'' 0 ''bot'',
                             new_entry 910 ''mute'' ''file'' 60 ''bot'',
                             new_entry 920 ''warn'' ''spam'' 3 ''Alice'',
                             new_entry 930 ''ban'' ''spam'' 24 ''Alice'']\<rparr>],
      tasks := [\<lparr>wake_at = 87330, task_user_id = 42, task_hours = 24\<rparr>]\<rparr>"

text \<open>The decimal numeral of 10^305, a number of hours an administrator may type.\<close>

definition huge_hours :: string where
  "huge_hours = CHR ''1'' # replicate 305 CHR ''0''"

section \<open>Properties\<close>

subsection \<open>Reading and writing the table\<close>

lemma find_app: "find P (xs @ ys) = (case find P xs of None \<Rightarrow> find P ys | Some x \<Rightarrow> Some x)"
  by (induction xs) auto

lemma get_user_id: "get_user db uid = Some r \<Longrightarrow> user_id r = uid"
  by (induction db) (auto simp: get_user_def split: if_splits)

lemma get_user_None: "get_user db uid = None \<longleftrightarrow> (\<forall>row \<in> set db. user_id row \<noteq> uid)"
  by (induction db) (auto simp: get_user_def)

lemma get_user_create:
  "get_user (create_user t db uid a) x =
     (if x = uid \<and> get_user db uid = None \<and> bigint uid
      then Some \<lparr>user_id = uid, join_date = t, user_alias = a, warns = 0, bans = 0, history = []\<rparr>
      else get_user db x)"
proof (cases "get_user db uid")
  case None
  then have fresh: "\<forall>row \<in> set db. user_id row \<noteq> uid"
    by (simp add: get_user_None)
  show ?thesis
  proof (cases "bigint uid")
    case True
    with fresh have "create_user t db uid a =
        db @ [\<lparr>user_id = uid, join_date = t, user_alias = a, warns = 0, bans = 0, history = []\<rparr>]"
      by (simp add: create_user_def)
    with None True show ?thesis
      by (cases "x = uid") (simp_all add: get_user_def find_app split: option.splits)
  next
    case False
    then show ?thesis by (simp add: create_user_def)
  qed
next
  case (Some r)
  then have "\<exists>row \<in> set db. user_id row = uid"
    using get_user_None [of db uid] by auto
  then have "create_user t db uid a = db"
    by (simp add: create_user_def)
  with Some show ?thesis by simp
qed

lemma get_user_update:
  "get_user (update_user_record db u) x =
     (if x = user_id u
      then map_option (\<lambda>row. row\<lparr>user_alias := user_alias u, warns := warns u, bans := bans u,
                         history := history u\<rparr>) (get_user db x)
      else get_user db x)"
  by (induction db) (auto simp: get_user_def update_user_record_def)

lemma from_id_bigint: "bigint (from_id msg)"
proof -
  have "- (2 ^ (LENGTH(64) - 1)) \<le> sint (from_user msg)"
    and "sint (from_user msg) < 2 ^ (LENGTH(64) - 1)"
    by (rule sint_ge, rule sint_lt)
  then show ?thesis by (simp add: bigint_def from_id_def)
qed

lemma add_punishment_no_row:
  "\<not> bigint uid \<Longrightarrow> get_user db uid = None \<Longrightarrow>
     add_punishment t db uid a p_type reason duration issued_by = Inl TypeError"
  by (simp add: add_punishment_def get_user_create)

lemma add_punishment_Inr:
  "bigint uid \<Longrightarrow> \<exists>db' u. add_punishment t db uid a p_type reason duration issued_by = Inr (db', u) \<and>
     get_user db' uid = Some u \<and>
     (\<forall>x. x \<noteq> uid \<longrightarrow> get_user db' x = get_user db x) \<and>
     history u = history_of db uid @ [new_entry t p_type reason duration issued_by] \<and>
     warns u = warns_of db uid + (if p_type = ''warn'' then 1 else 0) \<and>
     bans u = bans_of db uid + (if p_type = ''ban'' then 1 else 0)"
  apply (cases "get_user db uid")
  apply (auto simp: add_punishment_def get_user_create get_user_update Let_def history_of_def warns_of_def bans_of_def new_entry_def dest: get_user_id)
  done

lemma users_api [simp]: "users (api c w) = users w"
  and tasks_api [simp]: "tasks (api c w) = tasks w"
  and now_api [simp]: "now (api c w) = now w"
  and calls_api [simp]: "calls (api c w) = calls w @ [c]"
  and links_api [simp]: "ALLOWED_LINKS (api c w) = ALLOWED_LINKS w"
  and exts_api [simp]: "ALLOWED_EXTS (api c w) = ALLOWED_EXTS w"
  by (simp_all add: api_def)

lemma get_user_mem: "get_user db uid = Some r \<Longrightarrow> r \<in> set db"
  by (induction db) (auto simp: get_user_def split: if_splits)

lemma ledger_ok_create: "ledger_ok db \<Longrightarrow> ledger_ok (create_user t db uid a)"
  by (simp add: ledger_ok_def create_user_def warns_consistent_def)

lemma ledger_ok_update:
  "ledger_ok db \<Longrightarrow> warns_consistent u \<Longrightarrow> ledger_ok (update_user_record db u)"
  by (induction db) (auto simp: ledger_ok_def update_user_record_def warns_consistent_def)

lemma ledger_ok_get: "ledger_ok db \<Longrightarrow> get_user db uid = Some r \<Longrightarrow> warns_consistent r"
  by (auto simp: ledger_ok_def list_all_iff dest: get_user_mem)

lemma add_punishment_ledger_ok:
  assumes "ledger_ok db" and "add_punishment t db uid a p_type reason duration issued_by = Inr (db', u)"
  shows "ledger_ok db'"
proof -
  define db1 where "db1 = (case get_user db uid of None \<Rightarrow> create_user t db uid a | Some _ \<Rightarrow> db)"
  have ok1: "ledger_ok db1"
    using assms(1) by (simp add: db1_def ledger_ok_create split: option.splits)
  from assms(2) obtain r where r: "get_user db1 uid = Some r"
    by (auto simp: add_punishment_def db1_def Let_def split: option.splits)
  then have "warns_consistent r"
    using ok1 ledger_ok_get by blast
  then show ?thesis
    using assms(2) r ok1
    by (auto simp: add_punishment_def db1_def [symmetric] Let_def is_warn_def
        warns_consistent_def intro!: ledger_ok_update)
qed

lemma pop_warn_loop_last:
  "e_type e = ''warn'' \<Longrightarrow> k \<le> length post \<Longrightarrow> \<forall>x \<in> set (take k post). e_type x \<noteq> ''warn''
     \<Longrightarrow> pop_warn_loop (Suc (length pre + k)) (pre @ e # post) = pre @ post"
proof (induction k)
  case 0
  then show ?case by simp
next
  case (Suc k)
  then have "e_type (post ! k) \<noteq> ''warn''"
    by (auto simp: take_Suc_conv_app_nth)
  moreover have "(pre @ e # post) ! Suc (length pre + k) = post ! k"
    by (simp add: nth_append)
  moreover have "\<forall>x \<in> set (take k post). e_type x \<noteq> ''warn''"
    using Suc.prems by (auto dest: in_set_takeD simp: take_Suc_conv_app_nth)
  ultimately show ?case
    using Suc by simp
qed

lemma pop_warn_loop_split:
  assumes "\<exists>x \<in> set h. e_type x = ''warn''"
  shows "\<exists>pre e post. h = pre @ e # post \<and> e_type e = ''warn'' \<and>
           (\<forall>x \<in> set post. e_type x \<noteq> ''warn'') \<and> pop_warn_loop (length h) h = pre @ post"
proof -
  from split_list_last_prop [OF assms]
  obtain pre e post where h: "h = pre @ e # post" "e_type e = ''warn''"
      "\<forall>x \<in> set post. e_type x \<noteq> ''warn''"
    by blast
  then have "pop_warn_loop (Suc (length pre + length post)) (pre @ e # post) = pre @ post"
    by (intro pop_warn_loop_last) simp_all
  with h show ?thesis by auto
qed

lemma warns_consistent_has_warn:
  "warns_consistent r \<Longrightarrow> warns r \<noteq> 0 \<Longrightarrow> \<exists>x \<in> set (history r). e_type x = ''warn''"
  by (auto simp: warns_consistent_def is_warn_def filter_empty_conv)

lemma users_reply [simp]: "users (reply_text msg n w) = users w"
  and users_delete [simp]: "users (delete_command_message msg w) = users w"
  and users_create_task [simp]: "users (create_task_schedule_unban uid h w) = users w"
  by (simp_all add: reply_text_def delete_command_message_def create_task_schedule_unban_def)

lemma unwarn_record_consistent:
  assumes "warns_consistent r" and "warns r \<noteq> 0"
  shows "warns_consistent
           (r\<lparr>warns := warns r - 1, history := pop_warn_loop (length (history r)) (history r)\<rparr>)"
proof -
  from pop_warn_loop_split [OF warns_consistent_has_warn [OF assms]]
  obtain pre e post where h: "history r = pre @ e # post" "e_type e = ''warn''"
      "\<forall>x \<in> set post. e_type x \<noteq> ''warn''"
      "pop_warn_loop (length (history r)) (history r) = pre @ post"
    by blast
  with assms(1) show ?thesis
    by (simp add: warns_consistent_def is_warn_def)
qed

lemma unwarn_command_ledger_ok:
  assumes "ledger_ok (users w)"
  shows "ledger_ok (users (unwarn_command cfg msg args w))"
  using assms
  by (auto simp: unwarn_command_def Let_def split: option.splits
      intro!: ledger_ok_update unwarn_record_consistent dest: ledger_ok_get)

lemma unmute_command_users: "users (unmute_command cfg msg args w) = users w"
  by (simp add: unmute_command_def Let_def split: option.splits)

subsection \<open>Escalation\<close>

text \<open>
  C1. Every call of \<open>process_violation\<close> returns. When the sender has no row or his
  counter of warnings is 0, the history of the sender grows by exactly one entry of type
  warn with duration 0 and none of the calls made is \<open>Restrict_chat_member\<close>. When the
  counter is 1 or more, the history grows by exactly one entry of type mute with
  duration 60 and the sender is restricted from sending until 60 minutes after now.
\<close>

theorem two_tier_escalation:
  "\<exists>w'. process_violation cfg msg reason detail w = Inr w' \<and>
     (warns_of (users w) (from_id msg) = 0 \<longrightarrow>
        history_of (users w') (from_id msg) =
          history_of (users w) (from_id msg) @ [new_entry (now w) ''warn'' reason 0 ''bot''] \<and>
        (\<forall>c \<in> set (drop (length (calls w)) (calls w')).
           \<forall>ch u p t. c \<noteq> Restrict_chat_member ch u p t)) \<and>
     (1 \<le> warns_of (users w) (from_id msg) \<longrightarrow>
        history_of (users w') (from_id msg) =
          history_of (users w) (from_id msg) @ [new_entry (now w) ''mute'' reason 60 ''bot''] \<and>
        Restrict_chat_member (chat_id msg) (from_id msg) False (Some (now w + 60 * 60))
          \<in> set (drop (length (calls w)) (calls w')))"
proof -
  obtain db1 u1 where w: "add_punishment (now w) (users w) (from_id msg) (alias_of msg) ''warn'' reason 0 ''bot'' = Inr (db1, u1)"
      "get_user db1 (from_id msg) = Some u1"
      "history u1 = history_of (users w) (from_id msg) @ [new_entry (now w) ''warn'' reason 0 ''bot'']"
    using add_punishment_Inr [OF from_id_bigint, of "now w" "users w" msg "alias_of msg" "''warn''" reason 0 "''bot''"]
    by blast
  obtain db2 u2 where m: "add_punishment (now w) (users w) (from_id msg) (alias_of msg) ''mute'' reason 60 ''bot'' = Inr (db2, u2)"
      "get_user db2 (from_id msg) = Some u2"
      "history u2 = history_of (users w) (from_id msg) @ [new_entry (now w) ''mute'' reason 60 ''bot'']"
    using add_punishment_Inr [OF from_id_bigint, of "now w" "users w" msg "alias_of msg" "''mute''" reason 60 "''bot''"]
    by blast
  show ?thesis
  proof (cases "warns_of (users w) (from_id msg) = 0")
    case True
    then show ?thesis using w
      by (simp add: process_violation_def Let_def warns_of_def history_of_def)
  next
    case False
    then show ?thesis using m
      by (simp add: process_violation_def Let_def warns_of_def history_of_def)
  qed
qed

theorem two_tier_escalation_witness:
  "warns_of (users demo_world) (from_id demo_message) = 0 \<and>
   1 \<le> warns_of (users warned_world) (from_id demo_message) \<and>
   (\<exists>w'. process_violation demo_config demo_message ''link'' [] demo_world = Inr w' \<and>
      history_of (users w') 42 = [new_entry 1000 ''warn'' ''link'' 0 ''bot'']) \<and>
   (\<exists>w'. process_violation demo_config demo_message ''link'' [] warned_world = Inr w' \<and>
      history_of (users w') 42 =
        [new_entry 900 ''warn'' ''link'' 0 ''bot'', new_entry 1000 ''mute'' ''link'' 60 ''bot''])"
  using two_tier_escalation [of demo_config demo_message "''link''" "[]" demo_world]
    two_tier_escalation [of demo_config demo_message "''link''" "[]" warned_world]
  by (auto simp: warns_of_def history_of_def get_user_def demo_world_def warned_world_def
      demo_message_def from_id_def)

subsection \<open>Removing a warning\<close>

text \<open>
  C4. \<^verbatim>\<open>/unwarn\<close> from an administrator in the command topic, for a user without a row
  or with counter 0, answers that there is nothing to remove and leaves the table as it
  is. For a row with counter 1 or more (whose counter agrees with its history, as it
  does in every table the bot has written) the counter drops by exactly one and exactly
  the last entry of type warn leaves the history: the entries before and behind it stay,
  in their order, and no other row changes.
\<close>

theorem unwarn_removes_last_warn:
  assumes "is_valid_admin_command cfg msg w" and "args \<noteq> []" and "py_int (hd args) = Some uid"
  shows "(warns_of (users w) uid = 0 \<longrightarrow>
            users (unwarn_command cfg msg args w) = users w \<and>
            calls (unwarn_command cfg msg args w) =
              calls w @ [Reply_text (message_id msg) No_warns_reply,
                         Delete_message (chat_id msg) (message_id msg)]) \<and>
         (\<forall>r. get_user (users w) uid = Some r \<and> 1 \<le> warns r \<and> warns_consistent r \<longrightarrow>
            (\<exists>pre e post.
               history r = pre @ e # post \<and> e_type e = ''warn'' \<and>
               (\<forall>x \<in> set post. e_type x \<noteq> ''warn'') \<and>
               get_user (users (unwarn_command cfg msg args w)) uid =
                 Some (r\<lparr>warns := warns r - 1, history := pre @ post\<rparr>) \<and>
               (\<forall>x. x \<noteq> uid \<longrightarrow>
                  get_user (users (unwarn_command cfg msg args w)) x = get_user (users w) x)))"
proof (intro conjI impI allI)
  assume "warns_of (users w) uid = 0"
  then show "users (unwarn_command cfg msg args w) = users w"
    using assms by (auto simp: unwarn_command_def warns_of_def split: option.splits)
next
  assume "warns_of (users w) uid = 0"
  then show "calls (unwarn_command cfg msg args w) =
              calls w @ [Reply_text (message_id msg) No_warns_reply,
                         Delete_message (chat_id msg) (message_id msg)]"
    using assms
    by (auto simp: unwarn_command_def warns_of_def reply_text_def delete_command_message_def
        split: option.splits)
next
  fix r
  assume r: "get_user (users w) uid = Some r \<and> 1 \<le> warns r \<and> warns_consistent r"
  then have nz: "warns r \<noteq> 0" and id: "user_id r = uid"
    by (auto dest: get_user_id)
  from r nz pop_warn_loop_split [OF warns_consistent_has_warn]
  obtain pre e post where h: "history r = pre @ e # post" "e_type e = ''warn''"
      "\<forall>x \<in> set post. e_type x \<noteq> ''warn''"
      "pop_warn_loop (length (history r)) (history r) = pre @ post"
    by blast
  have cmd: "users (unwarn_command cfg msg args w) =
      update_user_record (users w) (r\<lparr>warns := warns r - 1, history := pre @ post\<rparr>)"
    using assms r nz h(4) by (simp add: unwarn_command_def Let_def)
  show "\<exists>pre e post.
               history r = pre @ e # post \<and> e_type e = ''warn'' \<and>
               (\<forall>x \<in> set post. e_type x \<noteq> ''warn'') \<and>
               get_user (users (unwarn_command cfg msg args w)) uid =
                 Some (r\<lparr>warns := warns r - 1, history := pre @ post\<rparr>) \<and>
               (\<forall>x. x \<noteq> uid \<longrightarrow>
                  get_user (users (unwarn_command cfg msg args w)) x = get_user (users w) x)"
    using h(1-3) r id by (intro exI [of _ pre] exI [of _ e] exI [of _ post])
      (simp add: cmd get_user_update)
qed

theorem unwarn_removes_last_warn_witness:
  "is_valid_admin_command demo_config admin_message ledger_world \<and>
   py_int (hd [''42'']) = Some 42 \<and> py_int (hd [''7'']) = Some 7 \<and>
   warns_of (users ledger_world) 7 = 0 \<and>
   users (unwarn_command demo_config admin_message [''7''] ledger_world) = users ledger_world \<and>
   calls (unwarn_command demo_config admin_message [''7''] ledger_world) =
     [Reply_text 6 No_warns_reply, Delete_message (- 1002) 6] \<and>
   get_user (users ledger_world) 42 =
     Some \<lparr>user_id = 42, join_date = 900, user_alias = ''@mallory'', warns = 2, bans = 1,
           history = [new_entry 900 ''warn'' ''link'' 0 ''bot'',
                      new_entry 910 ''mute'' ''file'' 60 ''bot'',
                      new_entry 920 ''warn'' ''spam'' 3 ''Alice'',
                      new_entry 930 ''ban'' ''spam'' 24 ''Alice'']\<rparr> \<and>
   get_user (users (unwarn_command demo_config admin_message [''42''] ledger_world)) 42 =
     Some \<lparr>user_id = 42, join_date = 900, user_alias = ''@mallory'', warns = 1, bans = 1,
           history = [new_entry 900 ''warn'' ''link'' 0 ''bot'',
                      new_entry 910 ''mute'' ''file'' 60 ''bot'',
                      new_entry 930 ''ban'' ''spam'' 24 ''Alice'']\<rparr> \<and>
   get_user (users (unwarn_command demo_config admin_message [''42''] ledger_world)) 7 =
     get_user (users ledger_world) 7 \<and>
   get_user (users ledger_world) 7 =
     Some \<lparr>user_id = 7, join_date = 800, user_alias = ''@bob'', warns = 0, bans = 0,
           history = [new_entry 905 ''mute'' ''flood'' 30 ''Alice'']\<rparr>"
proof -
  let ?r = "\<lparr>user_id = 42, join_date = 900, user_alias = ''@mallory'', warns = 2, bans = 1,
           history = [new_entry 900 ''warn'' ''link'' 0 ''bot'',
                      new_entry 910 ''mute'' ''file'' 60 ''bot'',
                      new_entry 920 ''warn'' ''spam'' 3 ''Alice'',
                      new_entry 930 ''ban'' ''spam'' 24 ''Alice'']\<rparr>"
  have v: "is_valid_admin_command demo_config admin_message ledger_world"
    by (simp add: is_valid_admin_command_def is_admin_in_frontend_def demo_config_def
        admin_message_def ledger_world_def demo_world_def from_id_def)
  have p: "py_int (hd [''42'']) = Some 42" "py_int (hd [''7'']) = Some 7"
    by (simp_all add: py_int_def is_digit_def digit_val_def)
  have a: "[''42''] \<noteq> []" "[''7''] \<noteq> []" by simp_all
  have g: "get_user (users ledger_world) 42 = Some ?r"
    by (simp add: get_user_def ledger_world_def)
  have g7: "get_user (users ledger_world) 7 =
     Some \<lparr>user_id = 7, join_date = 800, user_alias = ''@bob'', warns = 0, bans = 0,
           history = [new_entry 905 ''mute'' ''flood'' 30 ''Alice'']\<rparr>"
    by (simp add: get_user_def ledger_world_def)
  have c: "1 \<le> warns ?r" "warns_consistent ?r"
    by (simp_all add: warns_consistent_def is_warn_def new_entry_def)
  have z: "warns_of (users ledger_world) 7 = 0"
    by (simp add: warns_of_def g7)
  from unwarn_removes_last_warn [OF v a(2) p(2)] z
  have n1: "users (unwarn_command demo_config admin_message [''7''] ledger_world) = users ledger_world"
    and n2: "calls (unwarn_command demo_config admin_message [''7''] ledger_world) =
      calls ledger_world @ [Reply_text (message_id admin_message) No_warns_reply,
                 Delete_message (chat_id admin_message) (message_id admin_message)]"
    by blast+
  from n2 have n2': "calls (unwarn_command demo_config admin_message [''7''] ledger_world) =
     [Reply_text 6 No_warns_reply, Delete_message (- 1002) 6]"
    by (simp add: ledger_world_def demo_world_def admin_message_def)
  from unwarn_removes_last_warn [OF v a(1) p(1)] g c
  obtain pre e post where s: "history ?r = pre @ e # post" "e_type e = ''warn''"
      "\<forall>x \<in> set post. e_type x \<noteq> ''warn''"
    and res: "get_user (users (unwarn_command demo_config admin_message [''42''] ledger_world)) 42 =
                 Some (?r\<lparr>warns := warns ?r - 1, history := pre @ post\<rparr>)"
    and other: "\<forall>x. x \<noteq> 42 \<longrightarrow>
        get_user (users (unwarn_command demo_config admin_message [''42''] ledger_world)) x =
        get_user (users ledger_world) x"
    by blast
  from s have "pre @ post = [new_entry 900 ''warn'' ''link'' 0 ''bot'',
                      new_entry 910 ''mute'' ''file'' 60 ''bot'',
                      new_entry 930 ''ban'' ''spam'' 24 ''Alice'']"
    by (auto simp: Cons_eq_append_conv new_entry_def)
  with res have n3: "get_user (users (unwarn_command demo_config admin_message [''42''] ledger_world)) 42 =
     Some \<lparr>user_id = 42, join_date = 900, user_alias = ''@mallory'', warns = 1, bans = 1,
           history = [new_entry 900 ''warn'' ''link'' 0 ''bot'',
                      new_entry 910 ''mute'' ''file'' 60 ''bot'',
                      new_entry 930 ''ban'' ''spam'' 24 ''Alice'']\<rparr>"
    by simp
  from other have n4: "get_user (users (unwarn_command demo_config admin_message [''42''] ledger_world)) 7 =
     get_user (users ledger_world) 7"
    by simp
  show ?thesis
    by (intro conjI) (rule v p z n1 n2' g n3 n4 g7)+
qed

subsection \<open>The counter of warnings\<close>

lemma process_violation_after_ok:
  "ledger_ok (users w) \<Longrightarrow> ledger_ok (users (after (process_violation cfg msg reason detail w)))"
  by (auto simp: after_def process_violation_def Let_def split: if_splits sum.splits
      dest: add_punishment_ledger_ok)

lemma handle_message_loop_after_ok:
  "ledger_ok (users w) \<Longrightarrow> ledger_ok (users (after (handle_message_loop cfg msg s doms w)))"
  by (induction doms) (auto simp: process_violation_after_ok, simp add: after_def)

lemma handle_message_after_ok:
  "ledger_ok (users w) \<Longrightarrow> ledger_ok (users (after (handle_message ok cfg msg w)))"
  by (auto simp: handle_message_def Let_def handle_message_loop_after_ok split: sum.splits)
    (simp add: after_def)

lemma handle_document_after_ok:
  "ledger_ok (users w) \<Longrightarrow> ledger_ok (users (after (handle_document cfg msg w)))"
  by (auto simp: handle_document_def process_violation_after_ok split: option.splits)
    (simp_all add: after_def)

lemma ban_command_after_ok:
  "ledger_ok (users w) \<Longrightarrow> ledger_ok (users (after (ban_command cfg msg args w)))"
  by (auto simp: after_def ban_command_def Let_def split: if_splits sum.splits option.splits
      dest: add_punishment_ledger_ok)

lemma warn_command_after_ok:
  "ledger_ok (users w) \<Longrightarrow> ledger_ok (users (after (warn_command cfg msg args w)))"
  by (auto simp: after_def warn_command_def Let_def split: if_splits sum.splits option.splits
      dest: add_punishment_ledger_ok)

lemma mute_command_after_ok:
  "ledger_ok (users w) \<Longrightarrow> ledger_ok (users (after (mute_command cfg msg args w)))"
  by (auto simp: after_def mute_command_def Let_def split: if_splits sum.splits option.splits
      dest: add_punishment_ledger_ok)

lemma users_help [simp]: "users (help_command msg w) = users w"
  by (simp add: help_command_def)

lemma users_links_command [simp]: "users (links_command cfg msg w) = users w"
  by (simp add: links_command_def)

lemma after_Inr [simp]: "after (Inr w) = w"
  by (simp add: after_def)

lemma handle_command_after_ok:
  "ledger_ok (users w) \<Longrightarrow> ledger_ok (users (after (handle_command cfg word msg args w)))"
proof (cases "map_of command_handlers word")
  case None
  then show "ledger_ok (users w) \<Longrightarrow> ?thesis"
    by (simp add: handle_command_def)
next
  case (Some c)
  then show "ledger_ok (users w) \<Longrightarrow> ?thesis"
    by (cases c)
      (simp_all add: handle_command_def ban_command_after_ok warn_command_after_ok
        mute_command_after_ok unwarn_command_ledger_ok unmute_command_users)
qed

lemma dispatch_ledger_ok: "ledger_ok (users w) \<Longrightarrow> ledger_ok (users (dispatch ok cfg ev w))"
proof (cases ev)
  case (Text_message msg)
  then show "ledger_ok (users w) \<Longrightarrow> ?thesis"
    by (simp add: handle_message_after_ok)
next
  case (Document_message msg)
  then show "ledger_ok (users w) \<Longrightarrow> ?thesis"
    by (simp add: handle_document_after_ok)
next
  case (Command word msg args)
  then show "ledger_ok (users w) \<Longrightarrow> ?thesis"
    by (simp add: handle_command_after_ok)
next
  case (Callback q)
  then show "ledger_ok (users w) \<Longrightarrow> ?thesis"
    by (simp add: links_callback_def reply_text_def Let_def)
next
  case (Punishment uid a p_type reason duration issued_by)
  then show "ledger_ok (users w) \<Longrightarrow> ?thesis"
    by (auto split: sum.splits dest: add_punishment_ledger_ok)
next
  case (Clock t)
  then show "ledger_ok (users w) \<Longrightarrow> ?thesis"
    by (simp add: run_until_def)
qed

lemma run_ledger_ok: "ledger_ok (users w) \<Longrightarrow> ledger_ok (users (run ok cfg evs w))"
  by (induction evs arbitrary: w) (simp_all add: dispatch_ledger_ok)

text \<open>
  C2. The counter \<open>warns\<close> of every row equals the number of entries of type warn in
  the history of that row, after any sequence of updates: messages and documents that
  may be violations, every command, the buttons of the link list, any call of
  \<^verbatim>\<open>add_punishment\<close> (a punishment of any type) and the passing of time, started in a
  table where it holds (the empty table is one).
\<close>

theorem warns_counter_matches_history:
  assumes "ledger_ok (users w)" and "get_user (users (run ok cfg evs w)) uid = Some r"
  shows "warns r = int (length (filter (\<lambda>e. e_type e = ''warn'') (history r)))"
proof -
  have "warns_consistent r"
    using assms run_ledger_ok ledger_ok_get by blast
  then show ?thesis
    by (simp add: warns_consistent_def is_warn_def [abs_def])
qed

theorem warns_counter_matches_history_witness:
  "ledger_ok (users demo_world) \<and>
   get_user (users (run accept_bracketed demo_config demo_events demo_world)) 42 =
     Some \<lparr>user_id = 42, join_date = 1000, user_alias = ''@mallory'', warns = 1, bans = 0,
        history = [new_entry 1000 ''warn'' link_reason 0 ''bot'',
                   new_entry 1000 ''mute'' file_reason 60 ''bot'']\<rparr> \<and>
   (1::int) = int (length (filter (\<lambda>e. e_type e = ''warn'')
                     [new_entry 1000 ''warn'' link_reason 0 ''bot'',
                      new_entry 1000 ''mute'' file_reason 60 ''bot'']))"
proof -
  have ok: "ledger_ok (users demo_world)"
    by (simp add: ledger_ok_def demo_world_def)
  have g: "get_user (users (run accept_bracketed demo_config demo_events demo_world)) 42 =
     Some \<lparr>user_id = 42, join_date = 1000, user_alias = ''@mallory'', warns = 1, bans = 0,
        history = [new_entry 1000 ''warn'' link_reason 0 ''bot'',
                   new_entry 1000 ''mute'' file_reason 60 ''bot'']\<rparr>"
    by code_simp
  from warns_counter_matches_history [OF ok g] ok g show ?thesis
    by simp
qed

subsection \<open>The automatic mute\<close>

text \<open>
  C3, as the claim states it, fails: after an automatic mute no task is asleep, so
  nothing is scheduled to lift the restriction.
\<close>

theorem automatic_mute_schedules_nothing:
  "1 \<le> warns_of (users warned_world) (from_id demo_message) \<and>
   map_sum id tasks (process_violation demo_config demo_message link_reason [] warned_world)
     = Inr []"
  by code_simp

text \<open>
  C3, amended. For every automatic mute (a violation by a sender whose counter of
  warnings is 1 or more) the handler deletes the message, logs it, restricts the sender
  from sending until 60 minutes after now and notifies the sender, in this order. It
  starts no task: the end of the restriction is the \<^verbatim>\<open>until_date\<close> handed to
  Telegram.
\<close>

theorem automatic_mute_outcome:
  assumes "1 \<le> warns_of (users w) (from_id msg)"
  shows "\<exists>w'. process_violation cfg msg reason detail w = Inr w' \<and>
     calls w' = calls w @
       [Delete_message (chat_id msg) (message_id msg),
        Send_message (ADMIN_GROUP_ID cfg) (Some (LOGS_THREAD_ID cfg))
          (Violation_log (from_id msg) (alias_of msg) (now w)
             (case msg_text msg of None \<Rightarrow> detail | Some s \<Rightarrow> if s = [] then detail else s)),
        Restrict_chat_member (chat_id msg) (from_id msg) False (Some (now w + 60 * 60)),
        Send_message (chat_id msg) None (Mute_notice (alias_of msg))] \<and>
     tasks w' = tasks w"
proof -
  obtain db u where "add_punishment (now w) (users w) (from_id msg) (alias_of msg) ''mute''
      reason 60 ''bot'' = Inr (db, u)"
    using add_punishment_Inr [OF from_id_bigint, of "now w" "users w" msg "alias_of msg" "''mute''"
        reason 60 "''bot''"]
    by blast
  with assms show ?thesis
    by (simp add: process_violation_def Let_def warns_of_def)
qed

theorem automatic_mute_outcome_witness:
  "1 \<le> warns_of (users warned_world) (from_id demo_message) \<and>
   (\<exists>w'. process_violation demo_config demo_message link_reason [] warned_world = Inr w' \<and>
      calls w' =
       [Delete_message (- 1001) 5,
        Send_message (- 1002) (Some 8)
          (Violation_log 42 ''@mallory'' 1000 ''see http://evil.example/x''),
        Restrict_chat_member (- 1001) 42 False (Some 4600),
        Send_message (- 1001) None (Mute_notice ''@mallory'')] \<and>
      tasks w' = [])"
proof -
  have h: "1 \<le> warns_of (users warned_world) (from_id demo_message)"
    by (simp add: warns_of_def get_user_def warned_world_def demo_message_def from_id_def)
  from automatic_mute_outcome [OF h, of demo_config link_reason "[]"] h show ?thesis
    by (auto simp: warned_world_def demo_world_def demo_message_def demo_config_def alias_of_def
        from_id_def)
qed

subsection \<open>Bans and their end\<close>

lemma run_clock_Nil [simp]: "run_clock cfg [] w = w"
  and run_clock_Cons [simp]: "run_clock cfg (t # ts) w = run_clock cfg ts (run_until cfg t w)"
  by (simp_all add: run_clock_def)

lemma run_clock_fired:
  assumes "tasks w1 = tasks w0" and "now w1 = now w0"
    and "mset (calls w1) = mset (calls w0) + M"
  shows "tasks (run_clock cfg ts w1) = tasks (run_clock cfg ts w0) \<and>
         mset (calls (run_clock cfg ts w1)) = mset (calls (run_clock cfg ts w0)) + M"
  using assms
proof (induction ts arbitrary: w1 w0)
  case Nil
  then show ?case by simp
next
  case (Cons t ts)
  have "tasks (run_until cfg t w1) = tasks (run_until cfg t w0)"
    and "now (run_until cfg t w1) = now (run_until cfg t w0)"
    and "mset (calls (run_until cfg t w1)) = mset (calls (run_until cfg t w0)) + M"
    using Cons.prems by (simp_all add: run_until_def)
  from Cons.IH [OF this] show ?case by simp
qed

lemma run_clock_pending:
  assumes "tasks w1 = tasks w0 @ [k]" and "now w1 = now w0" and "calls w1 = calls w0"
  shows "mset (calls (run_clock cfg ts w1)) =
           mset (calls (run_clock cfg ts w0)) +
           (if \<exists>t \<in> set ts. wake_at k \<le> t then {#schedule_unban cfg k#} else {#}) \<and>
         tasks (run_clock cfg ts w1) =
           tasks (run_clock cfg ts w0) @ (if \<exists>t \<in> set ts. wake_at k \<le> t then [] else [k])"
  using assms
proof (induction ts arbitrary: w1 w0)
  case Nil
  then show ?case by simp
next
  case (Cons t ts)
  show ?case
  proof (cases "wake_at k \<le> t")
    case True
    have "tasks (run_until cfg t w1) = tasks (run_until cfg t w0)"
      and "now (run_until cfg t w1) = now (run_until cfg t w0)"
      and "mset (calls (run_until cfg t w1)) =
             mset (calls (run_until cfg t w0)) + {#schedule_unban cfg k#}"
      using Cons.prems True by (simp_all add: run_until_def)
    from run_clock_fired [OF this] True show ?thesis by simp
  next
    case False
    have "tasks (run_until cfg t w1) = tasks (run_until cfg t w0) @ [k]"
      and "now (run_until cfg t w1) = now (run_until cfg t w0)"
      and "calls (run_until cfg t w1) = calls (run_until cfg t w0)"
      using Cons.prems False by (simp_all add: run_until_def)
    from Cons.IH [OF this] False show ?thesis by simp
  qed
qed

lemma tasks_reply [simp]: "tasks (reply_text msg n w) = tasks w"
  and tasks_delete [simp]: "tasks (delete_command_message msg w) = tasks w"
  and now_reply [simp]: "now (reply_text msg n w) = now w"
  and now_delete [simp]: "now (delete_command_message msg w) = now w"
  and calls_reply [simp]: "calls (reply_text msg n w) = calls w @ [Reply_text (message_id msg) n]"
  and calls_delete [simp]: "calls (delete_command_message msg w) =
        calls w @ [Delete_message (chat_id msg) (message_id msg)]"
  by (simp_all add: reply_text_def delete_command_message_def)

text \<open>
  Inside the ranges of the database and of the event loop \<^verbatim>\<open>/ban\<close> does what is
  expected of it: for an identifier that fits the column and a number of hours that is
  not negative and not too large for the loop's clock, the ban is entered, counted and
  lifted by exactly one call once the time has come.
\<close>

lemma ban_command_in_range:
  assumes "is_valid_admin_command cfg msg w" and "3 \<le> length args"
    and "py_int (hd args) = Some uid" and "py_int (last args) = Some hours"
    and "bigint uid" and "0 \<le> hours" and "hours * 3600 < float_max_int"
  shows "\<exists>w'. ban_command cfg msg args w = Inr w' \<and>
     history_of (users w') uid =
       history_of (users w) uid @
         [new_entry (now w) ''ban'' (join_space (butlast (tl args))) hours (first_name msg)] \<and>
     bans_of (users w') uid = bans_of (users w) uid + 1 \<and>
     tasks w' = tasks w @
       [\<lparr>wake_at = now w + hours * 3600, task_user_id = uid, task_hours = hours\<rparr>] \<and>
     (\<forall>ts. mset (calls (run_clock cfg ts w')) =
             mset (calls (run_clock cfg ts (w'\<lparr>tasks := tasks w\<rparr>))) +
             (if \<exists>t \<in> set ts. now w + hours * 3600 \<le> t
              then {#Unban_chat_member (FRONTEND_CHAT_ID cfg) uid True#} else {#}))"
proof -
  let ?reason = "join_space (butlast (tl args))"
  let ?k = "\<lparr>wake_at = now w + hours * 3600, task_user_id = uid, task_hours = hours\<rparr>"
  obtain db u where p: "add_punishment (now w) (users w) uid (str_int uid) ''ban'' ?reason hours
        (first_name msg) = Inr (db, u)"
      "get_user db uid = Some u"
      "history u = history_of (users w) uid @
         [new_entry (now w) ''ban'' ?reason hours (first_name msg)]"
      "bans u = bans_of (users w) uid + (if ''ban'' = ''ban'' then 1 else 0)"
    using add_punishment_Inr [OF assms(5), of "now w" "users w" "str_int uid" "''ban''" ?reason hours
        "first_name msg"]
    by blast
  define w' where "w' = delete_command_message msg
      (create_task_schedule_unban uid hours
        (api (Send_message (ADMIN_GROUP_ID cfg) (Some (LOGS_THREAD_ID cfg))
                (Ban_log uid hours ?reason))
          (reply_text msg (Ban_reply uid hours (bans u))
            ((api (Ban_chat_member (FRONTEND_CHAT_ID cfg) uid) w)\<lparr>users := db\<rparr>))))"
  have res: "ban_command cfg msg args w = Inr w'"
    using assms(1-4) p(1) by (simp add: ban_command_def Let_def w'_def)
  have wake: "hours * 3600 \<le> 0 \<Longrightarrow> hours * 3600 = 0"
    using assms(6) by simp
  have t: "tasks w' = tasks w @ [?k]"
    using wake assms(7) by (auto simp: w'_def create_task_schedule_unban_def reply_text_def
        delete_command_message_def api_def)
  have u: "users w' = db"
    using assms(7) by (simp add: w'_def create_task_schedule_unban_def)
  have "\<forall>ts. mset (calls (run_clock cfg ts w')) =
             mset (calls (run_clock cfg ts (w'\<lparr>tasks := tasks w\<rparr>))) +
             (if \<exists>t \<in> set ts. now w + hours * 3600 \<le> t
              then {#Unban_chat_member (FRONTEND_CHAT_ID cfg) uid True#} else {#})"
  proof
    fix ts
    have "tasks w' = tasks (w'\<lparr>tasks := tasks w\<rparr>) @ [?k]"
      and "now w' = now (w'\<lparr>tasks := tasks w\<rparr>)" and "calls w' = calls (w'\<lparr>tasks := tasks w\<rparr>)"
      using t by simp_all
    from run_clock_pending [OF this, of cfg ts]
    show "mset (calls (run_clock cfg ts w')) =
             mset (calls (run_clock cfg ts (w'\<lparr>tasks := tasks w\<rparr>))) +
             (if \<exists>t \<in> set ts. now w + hours * 3600 \<le> t
              then {#Unban_chat_member (FRONTEND_CHAT_ID cfg) uid True#} else {#})"
      by (simp add: schedule_unban_def)
  qed
  with res t u p(2-4) show ?thesis
    by (simp add: history_of_def bans_of_def)
qed

lemma admin_is_valid: "is_valid_admin_command demo_config admin_message demo_world"
  by code_simp

lemma digits_acc_zeros:
  "digits_acc True acc (replicate n CHR ''0'') = Some (acc * 10 ^ n)"
  by (induction n arbitrary: acc) (simp_all add: is_digit_def digit_val_def)

lemma py_int_huge_hours: "py_int huge_hours = Some (10 ^ 305)"
proof -
  have "digits_acc False 0 huge_hours = Some (1 * 10 ^ 305)"
    unfolding huge_hours_def by (simp add: is_digit_def digit_val_def digits_acc_zeros)
  then show ?thesis
    by (simp add: py_int_def huge_hours_def)
qed

lemma py_int_small:
  "py_int ''42'' = Some 42" "py_int ''24'' = Some 24" "py_int ''-5'' = Some (- 5)"
  "py_int ''9223372036854775808'' = Some (2 ^ 63)"
  by (simp_all add: py_int_def is_digit_def digit_val_def)

lemma str_int_42: "str_int 42 = ''42''"
  by code_simp

lemma huge_delay: "float_max_int \<le> 10 ^ 305 * 3600"
  by (simp add: float_max_int_def)

lemma small_delay: "\<not> float_max_int \<le> - 5 * 3600"
  by (simp add: float_max_int_def)

text \<open>
  C6 fails on the code in three places, all reached by what an administrator may
  type. With 10^305 hours the ban is entered and counted, but the task dies when it
  starts to sleep (the delay does not fit a float, and the sleep stands outside the
  \<^verbatim>\<open>try\<close>): no task is left and no call to lift the ban is ever made. With the
  identifier 2^63 the row cannot be inserted, the error is only logged and
  \<^verbatim>\<open>add_punishment\<close> raises TypeError: the call to ban has been made, but there
  is no entry, no counter and no task. With -5 hours the entry carries the duration -5
  and the task wakes at once.
\<close>

theorem ban_outside_ranges:
  "py_int huge_hours = Some (10 ^ 305) \<and>
   ban_command demo_config admin_message [''42'', ''spam'', huge_hours] demo_world =
     Inr (demo_world
       \<lparr>users := [\<lparr>user_id = 42, join_date = 1000, user_alias = ''42'', warns = 0, bans = 1,
                    history = [new_entry 1000 ''ban'' ''spam'' (10 ^ 305) ''Alice'']\<rparr>],
        calls := [Ban_chat_member (- 1001) 42, Reply_text 6 (Ban_reply 42 (10 ^ 305) 1),
                  Send_message (- 1002) (Some 8) (Ban_log 42 (10 ^ 305) ''spam''),
                  Delete_message (- 1002) 6],
        tasks := []\<rparr>) \<and>
   py_int ''9223372036854775808'' = Some (2 ^ 63) \<and>
   ban_command demo_config admin_message [''9223372036854775808'', ''spam'', ''24''] demo_world =
     Inl (TypeError, demo_world\<lparr>calls := [Ban_chat_member (- 1001) (2 ^ 63)]\<rparr>) \<and>
   py_int ''-5'' = Some (- 5) \<and>
   ban_command demo_config admin_message [''42'', ''spam'', ''-5''] demo_world =
     Inr (demo_world
       \<lparr>users := [\<lparr>user_id = 42, join_date = 1000, user_alias = ''42'', warns = 0, bans = 1,
                    history = [new_entry 1000 ''ban'' ''spam'' (- 5) ''Alice'']\<rparr>],
        calls := [Ban_chat_member (- 1001) 42, Reply_text 6 (Ban_reply 42 (- 5) 1),
                  Send_message (- 1002) (Some 8) (Ban_log 42 (- 5) ''spam''),
                  Delete_message (- 1002) 6],
        tasks := [\<lparr>wake_at = 1000, task_user_id = 42, task_hours = - 5\<rparr>]\<rparr>)"
proof -
  have big: "\<not> bigint (2 ^ 63)" and ok: "bigint 42"
    by (simp_all add: bigint_def)
  have row: "add_punishment 1000 [] 42 ''42'' ''ban'' ''spam'' h ''Alice'' =
      Inr ([\<lparr>user_id = 42, join_date = 1000, user_alias = ''42'', warns = 0, bans = 1,
              history = [new_entry 1000 ''ban'' ''spam'' h ''Alice'']\<rparr>],
           \<lparr>user_id = 42, join_date = 1000, user_alias = ''42'', warns = 0, bans = 1,
              history = [new_entry 1000 ''ban'' ''spam'' h ''Alice'']\<rparr>)" for h
    using ok by (simp add: add_punishment_def get_user_def create_user_def update_user_record_def
        new_entry_def Let_def)
  have a1: "ban_command demo_config admin_message [''42'', ''spam'', huge_hours] demo_world =
     Inr (demo_world
       \<lparr>users := [\<lparr>user_id = 42, join_date = 1000, user_alias = ''42'', warns = 0, bans = 1,
                    history = [new_entry 1000 ''ban'' ''spam'' (10 ^ 305) ''Alice'']\<rparr>],
        calls := [Ban_chat_member (- 1001) 42, Reply_text 6 (Ban_reply 42 (10 ^ 305) 1),
                  Send_message (- 1002) (Some 8) (Ban_log 42 (10 ^ 305) ''spam''),
                  Delete_message (- 1002) 6],
        tasks := []\<rparr>)"
    unfolding ban_command_def
    using huge_delay admin_is_valid
    by (simp add: py_int_small py_int_huge_hours str_int_42 row Let_def
        create_task_schedule_unban_def reply_text_def delete_command_message_def api_def
        demo_world_def demo_config_def admin_message_def del: power_numeral)
  have a2: "ban_command demo_config admin_message [''9223372036854775808'', ''spam'', ''24'']
      demo_world = Inl (TypeError, demo_world\<lparr>calls := [Ban_chat_member (- 1001) (2 ^ 63)]\<rparr>)"
    unfolding ban_command_def
    using add_punishment_no_row [OF big, of "[]"] admin_is_valid
    by (simp add: py_int_small get_user_def api_def demo_world_def demo_config_def
        admin_message_def Let_def del: power_numeral)
  have a3: "ban_command demo_config admin_message [''42'', ''spam'', ''-5''] demo_world =
     Inr (demo_world
       \<lparr>users := [\<lparr>user_id = 42, join_date = 1000, user_alias = ''42'', warns = 0, bans = 1,
                    history = [new_entry 1000 ''ban'' ''spam'' (- 5) ''Alice'']\<rparr>],
        calls := [Ban_chat_member (- 1001) 42, Reply_text 6 (Ban_reply 42 (- 5) 1),
                  Send_message (- 1002) (Some 8) (Ban_log 42 (- 5) ''spam''),
                  Delete_message (- 1002) 6],
        tasks := [\<lparr>wake_at = 1000, task_user_id = 42, task_hours = - 5\<rparr>]\<rparr>)"
    unfolding ban_command_def
    using small_delay admin_is_valid
    by (simp add: py_int_small str_int_42 row Let_def
        create_task_schedule_unban_def reply_text_def delete_command_message_def api_def
        demo_world_def demo_config_def admin_message_def)
  show ?thesis
    by (intro conjI) (rule py_int_huge_hours py_int_small a1 a2 a3)+
qed

subsection \<open>Who may change the list of links\<close>

text \<open>
  User 666 is no administrator of the frontend chat and writes in the command topic of
  the administrators' group. The five text commands all start with
  \<open>is_valid_admin_command\<close>, which refuses him; \<open>links_command\<close> checks the chat
  and the topic only and shows him the keyboard.
\<close>

lemma outsider_refused: "\<not> is_valid_admin_command demo_config outsider_message demo_world"
  by code_simp

lemma outsider_sees_keyboard:
  "calls (links_command demo_config outsider_message demo_world) =
     [Reply_text 9 (Links_list [''good.example''])]"
  by code_simp

text \<open>
  C7 fails on the link list: \<open>links_callback\<close> checks neither the sender nor the
  chat. When user 666, who is no administrator, presses \<^verbatim>\<open>confirm|good.example\<close> on
  the keyboard, the link is removed from the table and from \<open>ALLOWED_LINKS\<close>.
\<close>

theorem links_callback_unchecked:
  "\<not> is_admin_in_frontend 666 demo_world \<and>
   ALLOWED_LINKS demo_world = [''good.example''] \<and>
   ALLOWED_LINKS (links_callback demo_config
       \<lparr>cq_from_user = 666, cq_data = ''confirm|good.example'', cq_message = keyboard_message\<rparr>
       demo_world) = [] \<and>
   allowed_links (links_callback demo_config
       \<lparr>cq_from_user = 666, cq_data = ''confirm|good.example'', cq_message = keyboard_message\<rparr>
       demo_world) = []"
  by code_simp

subsection \<open>Taking punishments back\<close>

lemma run_clock_no_tasks: "tasks w = [] \<Longrightarrow> calls (run_clock cfg ts w) = calls w"
proof (induction ts arbitrary: w)
  case Nil
  then show ?case by simp
next
  case (Cons t ts)
  then have "tasks (run_until cfg t w) = []" and "calls (run_until cfg t w) = calls w"
    by (simp_all add: run_until_def)
  with Cons.IH [of "run_until cfg t w"] show ?case by simp
qed

lemma pop_warn_loop_none:
  "n \<le> length h \<Longrightarrow> \<forall>x \<in> set (take n h). e_type x \<noteq> ''warn'' \<Longrightarrow> pop_warn_loop n h = h"
proof (induction n)
  case 0
  then show ?case by simp
next
  case (Suc n)
  then have "e_type (h ! n) \<noteq> ''warn''"
    by (auto simp: take_Suc_conv_app_nth)
  moreover have "\<forall>x \<in> set (take n h). e_type x \<noteq> ''warn''"
    using Suc.prems by (auto simp: take_Suc_conv_app_nth)
  ultimately show ?case
    using Suc by simp
qed

lemma tasks_process_violation:
  "tasks (after (process_violation cfg msg reason detail w)) = tasks w"
  by (auto simp: after_def process_violation_def Let_def split: sum.splits)

lemma tasks_handle_message_loop:
  "tasks (after (handle_message_loop cfg msg s doms w)) = tasks w"
  by (induction doms) (simp_all add: tasks_process_violation)

lemma tasks_handle_message: "tasks (after (handle_message ok cfg msg w)) = tasks w"
  by (auto simp: handle_message_def Let_def tasks_handle_message_loop split: sum.splits)
    (simp add: after_def)

lemma tasks_handle_document: "tasks (after (handle_document cfg msg w)) = tasks w"
  by (auto simp: handle_document_def tasks_process_violation split: option.splits)
    (simp_all add: after_def)

lemma tasks_ban_command: "prefix (tasks w) (tasks (after (ban_command cfg msg args w)))"
  by (auto simp: after_def ban_command_def Let_def create_task_schedule_unban_def
      split: sum.splits option.splits)

lemma tasks_warn_command: "tasks (after (warn_command cfg msg args w)) = tasks w"
  by (auto simp: after_def warn_command_def Let_def split: sum.splits option.splits)

lemma tasks_mute_command: "tasks (after (mute_command cfg msg args w)) = tasks w"
  by (auto simp: after_def mute_command_def Let_def split: sum.splits option.splits)

lemma tasks_unwarn_command: "tasks (unwarn_command cfg msg args w) = tasks w"
  by (simp add: unwarn_command_def Let_def split: option.splits)

lemma tasks_unmute_command: "tasks (unmute_command cfg msg args w) = tasks w"
  by (simp add: unmute_command_def Let_def split: option.splits)

lemma tasks_links_command: "tasks (links_command cfg msg w) = tasks w"
  by (simp add: links_command_def)

lemma tasks_links_callback: "tasks (links_callback cfg q w) = tasks w"
  by (simp add: links_callback_def Let_def tasks_links_command)

lemma tasks_handle_command:
  "prefix (tasks w) (tasks (after (handle_command cfg word msg args w)))"
proof (cases "map_of command_handlers word")
  case None
  then show ?thesis by (simp add: handle_command_def)
next
  case (Some c)
  then show ?thesis
    by (cases c)
      (simp_all add: handle_command_def tasks_ban_command tasks_warn_command tasks_mute_command
        tasks_unwarn_command tasks_unmute_command tasks_links_command help_command_def)
qed

lemma tasks_dispatch:
  "(\<forall>t. ev \<noteq> Clock t) \<Longrightarrow> prefix (tasks w) (tasks (dispatch ok cfg ev w))"
  by (cases ev)
    (auto simp: tasks_handle_message tasks_handle_document tasks_handle_command
      tasks_links_callback split: sum.splits)

lemma no_unban_handler: "handle_command cfg ''unban'' msg args w = Inr w"
  by (simp add: handle_command_def command_handlers_def)

text \<open>
  C8, as the claim states it, fails: \<^verbatim>\<open>/unmute\<close> leaves the table of users and the
  sleeping tasks as they are (the mute entry stays in the history, the pending unban
  stays scheduled), and a message \<^verbatim>\<open>/unban\<close> reaches no handler and changes nothing.
\<close>

theorem unmute_keeps_ledger_and_tasks:
  "is_valid_admin_command demo_config admin_message ledger_world \<and>
   map e_type (history_of (users ledger_world) 42) = [''warn'', ''mute'', ''warn'', ''ban''] \<and>
   tasks ledger_world = [\<lparr>wake_at = 87330, task_user_id = 42, task_hours = 24\<rparr>] \<and>
   handle_command demo_config ''unmute'' admin_message [''42''] ledger_world =
     Inr (ledger_world
            \<lparr>calls := [Restrict_chat_member (- 1001) 42 True None, Reply_text 6 (Unmute_reply 42),
                       Send_message (- 1002) (Some 8) (Unmute_log 42),
                       Delete_message (- 1002) 6]\<rparr>) \<and>
   handle_command demo_config ''unban'' admin_message [''42''] ledger_world = Inr ledger_world"
  by code_simp

text \<open>
  C8, amended. From an administrator in the command topic, \<^verbatim>\<open>/unmute\<close> only lifts
  the restriction (\<^verbatim>\<open>restrict_chat_member\<close> with \<^verbatim>\<open>can_send_messages=True\<close>),
  replies, logs and deletes the command; it changes neither the table of users nor the
  sleeping tasks. \<^verbatim>\<open>/unwarn\<close> on a row with a counter other than 0 lowers the counter by
  one and removes the last entry of type warn from the history (the history stays as it
  is when it holds no such entry), changes no other row, replies, logs and deletes the
  command; it makes no other call and leaves the sleeping tasks alone. No update other
  than the passing of time ever removes a sleeping task, so nothing cancels a pending
  unban. There is no command \<^verbatim>\<open>unban\<close>: the word reaches no handler and nothing
  changes.
\<close>

theorem reversal_commands:
  assumes "is_valid_admin_command cfg msg w" and "args \<noteq> []" and "py_int (hd args) = Some uid"
  shows "handle_command cfg ''unmute'' msg args w = Inr (unmute_command cfg msg args w) \<and>
         users (unmute_command cfg msg args w) = users w \<and>
         tasks (unmute_command cfg msg args w) = tasks w \<and>
         calls (unmute_command cfg msg args w) =
           calls w @ [Restrict_chat_member (FRONTEND_CHAT_ID cfg) uid True None,
                      Reply_text (message_id msg) (Unmute_reply uid),
                      Send_message (ADMIN_GROUP_ID cfg) (Some (LOGS_THREAD_ID cfg)) (Unmute_log uid),
                      Delete_message (chat_id msg) (message_id msg)] \<and>
         handle_command cfg ''unwarn'' msg args w = Inr (unwarn_command cfg msg args w) \<and>
         tasks (unwarn_command cfg msg args w) = tasks w \<and>
         (\<forall>r. get_user (users w) uid = Some r \<and> warns r \<noteq> 0 \<longrightarrow>
            (\<exists>h'. get_user (users (unwarn_command cfg msg args w)) uid =
                    Some (r\<lparr>warns := warns r - 1, history := h'\<rparr>) \<and>
                  (\<forall>pre e post.
                     history r = pre @ e # post \<and> e_type e = ''warn'' \<and>
                     (\<forall>x \<in> set post. e_type x \<noteq> ''warn'') \<longrightarrow> h' = pre @ post) \<and>
                  ((\<forall>x \<in> set (history r). e_type x \<noteq> ''warn'') \<longrightarrow> h' = history r)) \<and>
            (\<forall>x. x \<noteq> uid \<longrightarrow>
               get_user (users (unwarn_command cfg msg args w)) x = get_user (users w) x) \<and>
            calls (unwarn_command cfg msg args w) =
              calls w @ [Reply_text (message_id msg) (Unwarn_reply (warns r - 1)),
                         Send_message (ADMIN_GROUP_ID cfg) (Some (LOGS_THREAD_ID cfg))
                           (Unwarn_log uid (warns r - 1)),
                         Delete_message (chat_id msg) (message_id msg)]) \<and>
         (\<forall>ev v. (\<forall>t. ev \<noteq> Clock t) \<longrightarrow> prefix (tasks v) (tasks (dispatch ok cfg ev v))) \<and>
         (\<forall>m a v. handle_command cfg ''unban'' m a v = Inr v)"
proof (intro conjI allI impI)
  show "handle_command cfg ''unmute'' msg args w = Inr (unmute_command cfg msg args w)"
    by (simp add: handle_command_def command_handlers_def)
  show "users (unmute_command cfg msg args w) = users w"
    by (rule unmute_command_users)
  show "tasks (unmute_command cfg msg args w) = tasks w"
    by (rule tasks_unmute_command)
  show "calls (unmute_command cfg msg args w) =
           calls w @ [Restrict_chat_member (FRONTEND_CHAT_ID cfg) uid True None,
                      Reply_text (message_id msg) (Unmute_reply uid),
                      Send_message (ADMIN_GROUP_ID cfg) (Some (LOGS_THREAD_ID cfg)) (Unmute_log uid),
                      Delete_message (chat_id msg) (message_id msg)]"
    using assms by (simp add: unmute_command_def Let_def)
  show "handle_command cfg ''unwarn'' msg args w = Inr (unwarn_command cfg msg args w)"
    by (simp add: handle_command_def command_handlers_def)
  show "tasks (unwarn_command cfg msg args w) = tasks w"
    by (rule tasks_unwarn_command)
next
  fix ev v
  assume "\<forall>t. ev \<noteq> Clock t"
  then show "prefix (tasks v) (tasks (dispatch ok cfg ev v))"
    by (rule tasks_dispatch)
next
  fix m a v
  show "handle_command cfg ''unban'' m a v = Inr v"
    by (rule no_unban_handler)
next
  fix r
  assume r: "get_user (users w) uid = Some r \<and> warns r \<noteq> 0"
  then have id: "user_id r = uid" by (auto dest: get_user_id)
  let ?h = "pop_warn_loop (length (history r)) (history r)"
  have cmd: "users (unwarn_command cfg msg args w) =
      update_user_record (users w) (r\<lparr>warns := warns r - 1, history := ?h\<rparr>)"
    using assms r by (simp add: unwarn_command_def Let_def)
  have 1: "get_user (users (unwarn_command cfg msg args w)) uid =
      Some (r\<lparr>warns := warns r - 1, history := ?h\<rparr>)"
    using r id by (simp add: cmd get_user_update)
  have 2: "\<forall>pre e post.
             history r = pre @ e # post \<and> e_type e = ''warn'' \<and>
             (\<forall>x \<in> set post. e_type x \<noteq> ''warn'') \<longrightarrow> ?h = pre @ post"
  proof (intro allI impI)
    fix pre e post
    assume a: "history r = pre @ e # post \<and> e_type e = ''warn'' \<and>
             (\<forall>x \<in> set post. e_type x \<noteq> ''warn'')"
    then have "pop_warn_loop (Suc (length pre + length post)) (pre @ e # post) = pre @ post"
      by (intro pop_warn_loop_last) simp_all
    with a show "?h = pre @ post" by simp
  qed
  have 3: "(\<forall>x \<in> set (history r). e_type x \<noteq> ''warn'') \<longrightarrow> ?h = history r"
    by (simp add: pop_warn_loop_none)
  show "\<exists>h'. get_user (users (unwarn_command cfg msg args w)) uid =
                    Some (r\<lparr>warns := warns r - 1, history := h'\<rparr>) \<and>
                  (\<forall>pre e post.
                     history r = pre @ e # post \<and> e_type e = ''warn'' \<and>
                     (\<forall>x \<in> set post. e_type x \<noteq> ''warn'') \<longrightarrow> h' = pre @ post) \<and>
                  ((\<forall>x \<in> set (history r). e_type x \<noteq> ''warn'') \<longrightarrow> h' = history r)"
    using 1 2 3 by blast
  show "get_user (users (unwarn_command cfg msg args w)) x = get_user (users w) x"
    if "x \<noteq> uid" for x
    using that id by (simp add: cmd get_user_update)
  show "calls (unwarn_command cfg msg args w) =
              calls w @ [Reply_text (message_id msg) (Unwarn_reply (warns r - 1)),
                         Send_message (ADMIN_GROUP_ID cfg) (Some (LOGS_THREAD_ID cfg))
                           (Unwarn_log uid (warns r - 1)),
                         Delete_message (chat_id msg) (message_id msg)]"
    using assms r by (simp add: unwarn_command_def Let_def)
qed

theorem reversal_commands_witness:
  "is_valid_admin_command demo_config admin_message ledger_world \<and>
   py_int (hd [''42'']) = Some 42 \<and>
   get_user (users ledger_world) 42 =
     Some \<lparr>user_id = 42, join_date = 900, user_alias = ''@mallory'', warns = 2, bans = 1,
           history = [new_entry 900 ''warn'' ''link'' 0 ''bot'',
                      new_entry 910 ''mute'' ''file'' 60 ''bot'',
                      new_entry 920 ''warn'' ''spam'' 3 ''Alice'',
                      new_entry 930 ''ban'' ''spam'' 24 ''Alice'']\<rparr> \<and>
   users (unmute_command demo_config admin_message [''42''] ledger_world) = users ledger_world \<and>
   tasks (unmute_command demo_config admin_message [''42''] ledger_world) = tasks ledger_world \<and>
   tasks (unwarn_command demo_config admin_message [''42''] ledger_world) = tasks ledger_world \<and>
   get_user (users (unwarn_command demo_config admin_message [''42''] ledger_world)) 42 =
     Some \<lparr>user_id = 42, join_date = 900, user_alias = ''@mallory'', warns = 1, bans = 1,
           history = [new_entry 900 ''warn'' ''link'' 0 ''bot'',
                      new_entry 910 ''mute'' ''file'' 60 ''bot'',
                      new_entry 930 ''ban'' ''spam'' 24 ''Alice'']\<rparr> \<and>
   prefix (tasks ledger_world)
     (tasks (dispatch accept_bracketed demo_config (Command ''ban'' admin_message [''7'', ''x'', ''1''])
               ledger_world)) \<and>
   handle_command demo_config ''unban'' admin_message [''42''] ledger_world = Inr ledger_world"
proof -
  let ?r = "\<lparr>user_id = 42, join_date = 900, user_alias = ''@mallory'', warns = 2, bans = 1,
           history = [new_entry 900 ''warn'' ''link'' 0 ''bot'',
                      new_entry 910 ''mute'' ''file'' 60 ''bot'',
                      new_entry 920 ''warn'' ''spam'' 3 ''Alice'',
                      new_entry 930 ''ban'' ''spam'' 24 ''Alice'']\<rparr>"
  have v: "is_valid_admin_command demo_config admin_message ledger_world"
    by (simp add: is_valid_admin_command_def is_admin_in_frontend_def demo_config_def
        admin_message_def ledger_world_def demo_world_def from_id_def)
  have a: "[''42''] \<noteq> []" by simp
  have p: "py_int (hd [''42'']) = Some 42"
    by (simp add: py_int_def is_digit_def digit_val_def)
  have g: "get_user (users ledger_world) 42 = Some ?r"
    by (simp add: get_user_def ledger_world_def)
  have nz: "warns ?r \<noteq> 0" by simp
  note t = reversal_commands [OF v a p, of accept_bracketed]
  from t have n1: "users (unmute_command demo_config admin_message [''42''] ledger_world) =
      users ledger_world"
    and n2: "tasks (unmute_command demo_config admin_message [''42''] ledger_world) =
      tasks ledger_world"
    and n3: "tasks (unwarn_command demo_config admin_message [''42''] ledger_world) =
      tasks ledger_world"
    and n4: "handle_command demo_config ''unban'' admin_message [''42''] ledger_world =
      Inr ledger_world"
    by blast+
  from t have "\<forall>ev v. (\<forall>t. ev \<noteq> Clock t) \<longrightarrow>
      prefix (tasks v) (tasks (dispatch accept_bracketed demo_config ev v))"
    by blast
  moreover have "\<forall>t. Command ''ban'' admin_message [''7'', ''x'', ''1''] \<noteq> Clock t"
    by simp
  ultimately have n5: "prefix (tasks ledger_world)
     (tasks (dispatch accept_bracketed demo_config (Command ''ban'' admin_message [''7'', ''x'', ''1''])
               ledger_world))"
    by blast
  from t g nz obtain h' where
    res: "get_user (users (unwarn_command demo_config admin_message [''42''] ledger_world)) 42 =
            Some (?r\<lparr>warns := warns ?r - 1, history := h'\<rparr>)"
    and last: "\<forall>pre e post.
                 history ?r = pre @ e # post \<and> e_type e = ''warn'' \<and>
                 (\<forall>x \<in> set post. e_type x \<noteq> ''warn'') \<longrightarrow> h' = pre @ post"
    by blast
  have "history ?r = [new_entry 900 ''warn'' ''link'' 0 ''bot'',
                      new_entry 910 ''mute'' ''file'' 60 ''bot''] @
          new_entry 920 ''warn'' ''spam'' 3 ''Alice'' # [new_entry 930 ''ban'' ''spam'' 24 ''Alice'']
        \<and> e_type (new_entry 920 ''warn'' ''spam'' 3 ''Alice'') = ''warn''
        \<and> (\<forall>x \<in> set [new_entry 930 ''ban'' ''spam'' 24 ''Alice'']. e_type x \<noteq> ''warn'')"
    by (simp add: new_entry_def)
  with last have "h' = [new_entry 900 ''warn'' ''link'' 0 ''bot'',
                      new_entry 910 ''mute'' ''file'' 60 ''bot''] @
          [new_entry 930 ''ban'' ''spam'' 24 ''Alice'']"
    by blast
  with res have n6: "get_user (users (unwarn_command demo_config admin_message [''42''] ledger_world)) 42 =
     Some \<lparr>user_id = 42, join_date = 900, user_alias = ''@mallory'', warns = 1, bans = 1,
           history = [new_entry 900 ''warn'' ''link'' 0 ''bot'',
                      new_entry 910 ''mute'' ''file'' 60 ''bot'',
                      new_entry 930 ''ban'' ''spam'' 24 ''Alice'']\<rparr>"
    by simp
  show ?thesis
    by (intro conjI) (rule v p g n1 n2 n3 n4 n5 n6)+
qed

subsection \<open>Links in a text\<close>





text \<open>
  C5 fails on the code. The hostname \<^verbatim>\<open>gowww.od.example\<close> has no leading label
  \<^verbatim>\<open>www.\<close> and is not in the list of allowed links, yet the message passes:
  \<^verbatim>\<open>replace("www.", "")\<close> is meant to strip the leading label but removes the four
  characters wherever they stand, and what is left, \<^verbatim>\<open>good.example\<close>, is allowed.
  In the second message the link to \<^verbatim>\<open>evil.example\<close> is not allowed either, yet it
  is not reported: the link behind it makes the URL parser raise ValueError, which
  \<^verbatim>\<open>handle_message\<close> does not catch, and the handler ends before any check.
\<close>

theorem link_claim_fails:
  "findall_urls ''look http://gowww.od.example/x'' = [''http://gowww.od.example/x''] \<and>
   hostname_or_empty accept_bracketed ''http://gowww.od.example/x'' = ''gowww.od.example'' \<and>
   strip_leading_www ''gowww.od.example'' = ''gowww.od.example'' \<and>
   ''gowww.od.example'' \<notin> set (ALLOWED_LINKS demo_world) \<and>
   extract_domains accept_bracketed ''look http://gowww.od.example/x'' = Inr [''good.example''] \<and>
   handle_message accept_bracketed demo_config disguised_message demo_world = Inr demo_world \<and>
   findall_urls ''http://evil.example http://[x'' = [''http://evil.example'', ''http://[x''] \<and>
   hostname_or_empty accept_bracketed ''http://evil.example'' = ''evil.example'' \<and>
   ''evil.example'' \<notin> set (ALLOWED_LINKS demo_world) \<and>
   handle_message accept_bracketed demo_config broken_link_message demo_world =
     Inl (ValueError, demo_world)"
  by code_simp







subsection \<open>Attached files\<close>






end
